theory Spec2Isabelle
  imports Main "HOL-Library.Word" "HOL-Library.Sublist"
begin

section \<open>The LuaSnip completion source of ddc.vim\<close>

text \<open>
  A shallow embedding of \<^verbatim>\<open>denops/@ddc-sources/luasnip.ts\<close>. The three classes of
  the file (\<^verbatim>\<open>SnippetCache\<close>, \<^verbatim>\<open>LuaSnipInterface\<close>, \<^verbatim>\<open>Source\<close>) become
  functions over explicit state. What the editor bridge answers is an input of the model
  (record \<open>Denops\<close>), the clock reading of \<^verbatim>\<open>Date.now()\<close> is a parameter, and a raised
  exception is the \<open>Inl\<close> side of a sum. Console output is not part of the model.
  Numbers (\<^verbatim>\<open>maxCandidates\<close>, timestamps) are integers.
\<close>

subsection \<open>Strings of the host language\<close>

text \<open>
  A string of the host language is a sequence of 16-bit code units (UTF-16), and
  \<^verbatim>\<open>startsWith\<close>, \<^verbatim>\<open>includes\<close>, concatenation and \<^verbatim>\<open>join\<close> work on code units.
  \<open>js\<close> turns an ASCII literal of the source text into its code units.
\<close>

type_synonym code_unit = "16 word"

type_synonym jsstring = "code_unit list"

definition js :: "string \<Rightarrow> jsstring" where
  "js s = map of_char s"

text \<open>
  \<^verbatim>\<open>String.prototype.trim\<close> removes from both ends the code points that ECMAScript
  calls WhiteSpace or LineTerminator: TAB, LF, VT, FF, CR, SPACE, NO-BREAK SPACE
  (U+00A0), OGHAM SPACE MARK (U+1680), the spaces U+2000 to U+200A, LINE SEPARATOR
  (U+2028), PARAGRAPH SEPARATOR (U+2029), NARROW NO-BREAK SPACE (U+202F), MEDIUM
  MATHEMATICAL SPACE (U+205F), IDEOGRAPHIC SPACE (U+3000) and ZERO WIDTH NO-BREAK SPACE
  (U+FEFF). Each of them is a single code unit.
\<close>

definition isWhiteSpace :: "code_unit \<Rightarrow> bool" where
  "isWhiteSpace c =
     (c \<in> set [0x0009, 0x000A, 0x000B, 0x000C, 0x000D, 0x0020, 0x00A0, 0x1680,
               0x2000, 0x2001, 0x2002, 0x2003, 0x2004, 0x2005, 0x2006, 0x2007, 0x2008,
               0x2009, 0x200A, 0x2028, 0x2029, 0x202F, 0x205F, 0x3000, 0xFEFF])"

definition trimStart :: "jsstring \<Rightarrow> jsstring" where
  "trimStart s = dropWhile isWhiteSpace s"

definition trimEnd :: "jsstring \<Rightarrow> jsstring" where
  "trimEnd s = rev (dropWhile isWhiteSpace (rev s))"

definition trim :: "jsstring \<Rightarrow> jsstring" where
  "trim s = trimEnd (trimStart s)"

text \<open>
  \<^verbatim>\<open>String.prototype.toLowerCase\<close> maps a string through the case tables of the
  Unicode standard, which belong to the runtime and not to this repository. It is
  therefore never defined here: every function of the source that lowers a string takes
  the host's function as its first argument, named \<open>toLowerCase\<close>, and every property
  below is proved for every such function.

  On strings of ASCII code units the host's function is \<open>toLowerCase_ascii\<close>, which
  maps A to Z onto a to z and leaves every other code unit alone. It is the function
  the examples on ASCII inputs are run with.
\<close>

definition toLowerCase_ascii :: "jsstring \<Rightarrow> jsstring" where
  "toLowerCase_ascii s = map (\<lambda>c. if 0x41 \<le> c \<and> c \<le> 0x5A then c + 0x20 else c) s"

fun startsWith :: "jsstring \<Rightarrow> jsstring \<Rightarrow> bool" where
  "startsWith s [] = True"
| "startsWith [] (p # ps) = False"
| "startsWith (c # cs) (p # ps) = (c = p \<and> startsWith cs ps)"

fun includes_str :: "jsstring \<Rightarrow> jsstring \<Rightarrow> bool" where
  "includes_str [] p = (p = [])"
| "includes_str (c # cs) p = (startsWith (c # cs) p \<or> includes_str cs p)"

fun join :: "jsstring \<Rightarrow> jsstring list \<Rightarrow> jsstring" where
  "join sep [] = []"
| "join sep [x] = x"
| "join sep (x # y # ys) = x @ sep @ join sep (y # ys)"

text \<open>
  \<^verbatim>\<open>Array.prototype.slice(start, end)\<close>: a negative index counts from the end of the
  array, and both indices are clamped to the array.
\<close>

definition slice :: "'a list \<Rightarrow> int \<Rightarrow> int \<Rightarrow> 'a list" where
  "slice xs start end =
     (let len = int (length xs);
          k = (if start < 0 then max (len + start) 0 else min start len);
          final = (if end < 0 then max (len + end) 0 else min end len)
      in take (nat (max (final - k) 0)) (drop (nat k) xs))"

subsection \<open>Data\<close>

record Params =
  mark :: jsstring
  dup :: bool
  maxCandidates :: int
  enableCache :: bool
  cacheTimeout :: int
  filetypes :: "jsstring list"
  excludeFiletypes :: "jsstring list"
  showCondition :: bool
  enableRegexTrigger :: bool
  debug :: bool

record LuaSnipData =
  trigger :: jsstring
  name :: "jsstring option"
  description :: "jsstring option"
  wordTrig :: "bool option"
  regTrig :: "bool option"
  filetype :: jsstring

text \<open>
  The bridge's answer is cast to \<^verbatim>\<open>LuaSnipData[]\<close> once it is known to be an array; its
  elements are not inspected. An element that is \<^verbatim>\<open>null\<close> makes every property
  access on it raise a \<^verbatim>\<open>TypeError\<close>.
\<close>

datatype element = Null | Obj LuaSnipData

datatype luaresult = NotArray | Array "element list"

datatype error = Thrown string | TypeError

record CacheEntry =
  data :: "element list"
  timestamp :: int

record AnalyzeResult =
  shouldComplete :: bool
  ar_filetype :: jsstring

record Item =
  word :: jsstring
  abbr :: jsstring
  menu :: jsstring
  info :: jsstring
  kind :: jsstring
  item_dup :: bool

text \<open>
  The editor bridge as one call sees it: what \<^verbatim>\<open>denops.eval("&filetype")\<close> answers,
  what \<^verbatim>\<open>denops.call("luaeval", ...)\<close> answers to the snippet script of a file type,
  and the truth value of what it answers to the availability script.
\<close>

record Denops =
  eval_filetype :: "error + jsstring"
  luaeval_snippets :: "jsstring \<Rightarrow> error + luaresult"
  luaeval_available :: "error + bool"

record Context =
  input :: jsstring

record GatherArguments =
  denops :: Denops
  ctx :: Context
  sourceParams :: Params

record SnippetCache =
  cache :: "jsstring \<rightharpoonup> CacheEntry"
  timeout :: int

record Source =
  source_cache :: SnippetCache
  isInitialized :: bool

subsection \<open>Truthiness\<close>

definition truthy_string :: "jsstring option \<Rightarrow> bool" where
  "truthy_string v = (case v of None \<Rightarrow> False | Some s \<Rightarrow> s \<noteq> [])"

definition truthy_bool :: "bool option \<Rightarrow> bool" where
  "truthy_bool v = (case v of None \<Rightarrow> False | Some b \<Rightarrow> b)"

definition or_string :: "jsstring option \<Rightarrow> jsstring \<Rightarrow> jsstring" where
  "or_string v d = (case v of None \<Rightarrow> d | Some s \<Rightarrow> if s \<noteq> [] then s else d)"

subsection \<open>SnippetCache\<close>

definition SnippetCache_new :: "int \<Rightarrow> SnippetCache" where
  "SnippetCache_new t = \<lparr>cache = Map.empty, timeout = t\<rparr>"

text \<open>
  \<^verbatim>\<open>get\<close> returns the cache after the call, whether the fetcher was invoked, and the
  value (or the fetcher's exception, in which case nothing is stored).
\<close>

definition SnippetCache_fetch ::
  "SnippetCache \<Rightarrow> int \<Rightarrow> jsstring \<Rightarrow> (unit \<Rightarrow> error + element list)
     \<Rightarrow> SnippetCache \<times> bool \<times> (error + element list)" where
  "SnippetCache_fetch c now ft fetcher =
     (case fetcher () of
        Inl e \<Rightarrow> (c, True, Inl e)
      | Inr d \<Rightarrow> (c\<lparr>cache := (cache c)(ft \<mapsto> \<lparr>data = d, timestamp = now\<rparr>)\<rparr>, True, Inr d))"

definition SnippetCache_get ::
  "SnippetCache \<Rightarrow> int \<Rightarrow> jsstring \<Rightarrow> (unit \<Rightarrow> error + element list)
     \<Rightarrow> SnippetCache \<times> bool \<times> (error + element list)" where
  "SnippetCache_get c now ft fetcher =
     (case cache c ft of
        None \<Rightarrow> SnippetCache_fetch c now ft fetcher
      | Some entry \<Rightarrow>
          if now - timestamp entry < timeout c then (c, False, Inr (data entry))
          else SnippetCache_fetch c now ft fetcher)"

definition SnippetCache_invalidate :: "SnippetCache \<Rightarrow> jsstring option \<Rightarrow> SnippetCache" where
  "SnippetCache_invalidate c ft =
     (case ft of
        None \<Rightarrow> c\<lparr>cache := Map.empty\<rparr>
      | Some k \<Rightarrow> if k \<noteq> [] then c\<lparr>cache := (cache c)(k := None)\<rparr>
                  else c\<lparr>cache := Map.empty\<rparr>)"

subsection \<open>LuaSnipInterface\<close>

definition LuaSnipInterface_getSnippets :: "Denops \<Rightarrow> jsstring \<Rightarrow> element list" where
  "LuaSnipInterface_getSnippets d ft =
     (case luaeval_snippets d ft of
        Inl e \<Rightarrow> []
      | Inr NotArray \<Rightarrow> []
      | Inr (Array xs) \<Rightarrow> xs)"

definition isLuaSnipAvailable :: "Denops \<Rightarrow> bool" where
  "isLuaSnipAvailable d = (case luaeval_available d of Inl e \<Rightarrow> False | Inr b \<Rightarrow> b)"

subsection \<open>Source\<close>

definition Source_new :: Source where
  "Source_new = \<lparr>source_cache = SnippetCache_new 5000, isInitialized = False\<rparr>"

definition params :: Params where
  "params = \<lparr>mark = js ''[LS]'', dup = False, maxCandidates = 500, enableCache = True,
     cacheTimeout = 5000, filetypes = [], excludeFiletypes = [], showCondition = True,
     enableRegexTrigger = True, debug = False\<rparr>"

definition onInit :: "Source \<Rightarrow> Denops \<Rightarrow> Source" where
  "onInit s d = (if \<not> isLuaSnipAvailable d then s else s\<lparr>isInitialized := True\<rparr>)"

definition analyzeContext :: "Denops \<Rightarrow> AnalyzeResult" where
  "analyzeContext d =
     (case eval_filetype d of
        Inr ft \<Rightarrow> \<lparr>shouldComplete = True, ar_filetype = (if ft \<noteq> [] then ft else js ''all'')\<rparr>
      | Inl e \<Rightarrow> \<lparr>shouldComplete = False, ar_filetype = []\<rparr>)"

text \<open>
  \<^verbatim>\<open>Source.getSnippets\<close> returns the source after the call, the file types for which
  the snippet script was sent over the bridge during the call, and the snippets.
\<close>

definition getSnippets ::
  "Source \<Rightarrow> Denops \<Rightarrow> int \<Rightarrow> jsstring \<Rightarrow> Params
     \<Rightarrow> Source \<times> jsstring list \<times> (error + element list)" where
  "getSnippets s d now ft p =
     (if filetypes p \<noteq> [] \<and> ft \<notin> set (filetypes p) then (s, [], Inr [])
      else if ft \<in> set (excludeFiletypes p) then (s, [], Inr [])
      else if enableCache p then
        (case SnippetCache_get (source_cache s) now ft
                (\<lambda>_. Inr (LuaSnipInterface_getSnippets d ft)) of
           (c, invoked, r) \<Rightarrow> (s\<lparr>source_cache := c\<rparr>, (if invoked then [ft] else []), r))
      else (s, [ft], Inr (LuaSnipInterface_getSnippets d ft)))"

text \<open>\<^verbatim>\<open>Array.prototype.filter\<close> and \<^verbatim>\<open>map\<close> with a callback that may raise.\<close>

fun filter_js :: "('a \<Rightarrow> error + bool) \<Rightarrow> 'a list \<Rightarrow> error + 'a list" where
  "filter_js f [] = Inr []"
| "filter_js f (x # xs) =
     (case f x of
        Inl e \<Rightarrow> Inl e
      | Inr b \<Rightarrow>
          (case filter_js f xs of
             Inl e \<Rightarrow> Inl e
           | Inr ys \<Rightarrow> Inr (if b then x # ys else ys)))"

fun map_js :: "('a \<Rightarrow> error + 'b) \<Rightarrow> 'a list \<Rightarrow> error + 'b list" where
  "map_js f [] = Inr []"
| "map_js f (x # xs) =
     (case f x of
        Inl e \<Rightarrow> Inl e
      | Inr y \<Rightarrow> (case map_js f xs of Inl e \<Rightarrow> Inl e | Inr ys \<Rightarrow> Inr (y # ys)))"

text \<open>
  The callback of the input filter. Its first argument stands for
  \<^verbatim>\<open>String.prototype.toLowerCase\<close>, see above.
\<close>

definition snippet_matches ::
  "(jsstring \<Rightarrow> jsstring) \<Rightarrow> jsstring \<Rightarrow> LuaSnipData \<Rightarrow> bool" where
  "snippet_matches toLowerCase inputLower snippet =
     (if startsWith (toLowerCase (trigger snippet)) inputLower then True
      else if (case name snippet of
                 None \<Rightarrow> False
               | Some n \<Rightarrow> n \<noteq> [] \<and> includes_str (toLowerCase n) inputLower) then True
      else False)"

fun filter_callback ::
  "(jsstring \<Rightarrow> jsstring) \<Rightarrow> jsstring \<Rightarrow> element \<Rightarrow> error + bool" where
  "filter_callback toLowerCase inputLower Null = Inl TypeError"
| "filter_callback toLowerCase inputLower (Obj snippet) =
     Inr (snippet_matches toLowerCase inputLower snippet)"

definition filterSnippets ::
  "(jsstring \<Rightarrow> jsstring) \<Rightarrow> element list \<Rightarrow> jsstring \<Rightarrow> error + element list" where
  "filterSnippets toLowerCase snippets inp =
     (if trim inp = [] then Inr snippets
      else filter_js (filter_callback toLowerCase (toLowerCase inp)) snippets)"

definition buildInfoText :: "LuaSnipData \<Rightarrow> jsstring" where
  "buildInfoText snippet =
     (let parts = [js ''Trigger: '' @ trigger snippet];
          parts = (if truthy_string (name snippet)
                   then parts @ [js ''Name: '' @ or_string (name snippet) []] else parts);
          parts = (if truthy_string (description snippet)
                   then parts @ [js ''Description: '' @ or_string (description snippet) []]
                   else parts);
          parts = parts @ [js ''Filetype: '' @ filetype snippet];
          flags = [];
          flags = (if truthy_bool (wordTrig snippet) then flags @ [js ''word trigger''] else flags);
          flags = (if truthy_bool (regTrig snippet) then flags @ [js ''regex trigger''] else flags);
          parts = (if flags \<noteq> [] then parts @ [js ''Flags: '' @ join (js '', '') flags] else parts)
      in join [0x0A] parts)"

fun convert_callback :: "Params \<Rightarrow> element \<Rightarrow> error + Item" where
  "convert_callback p Null = Inl TypeError"
| "convert_callback p (Obj snippet) =
     Inr \<lparr>word = trigger snippet,
          abbr = or_string (name snippet) (trigger snippet),
          menu = trim (mark p @ js '' '' @ or_string (description snippet) []),
          info = buildInfoText snippet,
          kind = js ''Snippet'',
          item_dup = dup p\<rparr>"

definition convertToItems :: "element list \<Rightarrow> Params \<Rightarrow> error + Item list" where
  "convertToItems snippets p = map_js (convert_callback p) snippets"

text \<open>The body of the \<^verbatim>\<open>try\<close> block of \<^verbatim>\<open>gather\<close>.\<close>

definition gather_try ::
  "(jsstring \<Rightarrow> jsstring) \<Rightarrow> Source \<Rightarrow> int \<Rightarrow> GatherArguments
     \<Rightarrow> Source \<times> jsstring list \<times> (error + Item list)" where
  "gather_try toLowerCase s now args =
     (let analyzeResult = analyzeContext (denops args) in
      if \<not> shouldComplete analyzeResult then (s, [], Inr [])
      else
        (case getSnippets s (denops args) now (ar_filetype analyzeResult) (sourceParams args) of
           (s', fetched, Inl e) \<Rightarrow> (s', fetched, Inl e)
         | (s', fetched, Inr snippets) \<Rightarrow>
             (case filterSnippets toLowerCase snippets (input (ctx args)) of
                Inl e \<Rightarrow> (s', fetched, Inl e)
              | Inr filtered \<Rightarrow>
                  (case convertToItems filtered (sourceParams args) of
                     Inl e \<Rightarrow> (s', fetched, Inl e)
                   | Inr items \<Rightarrow>
                       (s', fetched,
                        Inr (slice items 0 (maxCandidates (sourceParams args))))))))"

text \<open>
  \<^verbatim>\<open>gather\<close>: the source after the call, the file types fetched over the bridge during
  the call, and what the host framework receives: \<open>Inr\<close> a list of items, or \<open>Inl\<close> an
  exception that escaped.
\<close>

definition gather ::
  "(jsstring \<Rightarrow> jsstring) \<Rightarrow> Source \<Rightarrow> int \<Rightarrow> GatherArguments
     \<Rightarrow> Source \<times> jsstring list \<times> (error + Item list)" where
  "gather toLowerCase s now args =
     (if \<not> isInitialized s then (s, [], Inr [])
      else
        (case gather_try toLowerCase s now args of
           (s', fetched, Inl e) \<Rightarrow> (s', fetched, Inr [])
         | (s', fetched, Inr items) \<Rightarrow> (s', fetched, Inr items)))"

text \<open>A session: the gather calls the framework issues one after the other.\<close>

fun gathers ::
  "(jsstring \<Rightarrow> jsstring) \<Rightarrow> Source \<Rightarrow> (int \<times> GatherArguments) list
     \<Rightarrow> (jsstring list \<times> (error + Item list)) list" where
  "gathers toLowerCase s [] = []"
| "gathers toLowerCase s ((now, args) # calls) =
     (case gather toLowerCase s now args of
        (s', fetched, r) \<Rightarrow> (fetched, r) # gathers toLowerCase s' calls)"

subsection \<open>Test fixtures\<close>

text \<open>
  The fixtures of \<^verbatim>\<open>test/luasnip_test.ts\<close>: a bridge that reports the file type
  \<^verbatim>\<open>typescript\<close>, finds the engine and answers the snippet script with a fixed value;
  gather arguments built from it; and the snippets the tests use.
\<close>

definition mockDenops :: "error + luaresult \<Rightarrow> Denops" where
  "mockDenops answer =
     \<lparr>eval_filetype = Inr (js ''typescript''),
      luaeval_snippets = (\<lambda>ft. answer),
      luaeval_available = Inr True\<rparr>"

definition createMockGatherArgs :: "jsstring \<Rightarrow> Params \<Rightarrow> error + luaresult \<Rightarrow> GatherArguments" where
  "createMockGatherArgs inp p answer =
     \<lparr>denops = mockDenops answer, ctx = \<lparr>input = inp\<rparr>, sourceParams = p\<rparr>"

definition snippet_function :: LuaSnipData where
  "snippet_function =
     \<lparr>trigger = js ''function'', name = Some (js ''Function Declaration''),
      description = Some (js ''Create a function''), wordTrig = Some True, regTrig = Some False,
      filetype = js ''typescript''\<rparr>"

definition snippet_variable :: LuaSnipData where
  "snippet_variable =
     \<lparr>trigger = js ''variable'', name = Some (js ''Variable Declaration''),
      description = Some (js ''Create a variable''), wordTrig = None, regTrig = None,
      filetype = js ''typescript''\<rparr>"

definition snippet_bare :: "jsstring \<Rightarrow> LuaSnipData" where
  "snippet_bare t =
     \<lparr>trigger = t, name = None, description = None, wordTrig = None, regTrig = None,
      filetype = js ''typescript''\<rparr>"

definition ready_source :: Source where
  "ready_source = onInit Source_new (mockDenops (Inr (Array [])))"

subsection \<open>The input filter as the specification words it\<close>

text \<open>
  The specification's reading of the input filter, for comparison with \<open>filterSnippets\<close>:
  the typed prefix is trimmed, and the trimmed prefix is what triggers and names are
  matched against.
\<close>

definition filterSnippets_spec ::
  "(jsstring \<Rightarrow> jsstring) \<Rightarrow> LuaSnipData list \<Rightarrow> jsstring \<Rightarrow> LuaSnipData list" where
  "filterSnippets_spec toLowerCase xs inp =
     (let typed = toLowerCase (trim inp) in
      if typed = [] then xs
      else filter (\<lambda>sn. prefix typed (toLowerCase (trigger sn))
                     \<or> (case name sn of
                           None \<Rightarrow> False
                         | Some n \<Rightarrow> sublist typed (toLowerCase n))) xs)"

section \<open>Properties\<close>

subsection \<open>Strings and arrays\<close>

lemma startsWith_prefix: "startsWith s p = prefix p s"
  by (induction s p rule: startsWith.induct) auto

lemma includes_str_sublist: "includes_str s p = sublist p s"
proof (induction s)
  case Nil
  then show ?case by simp
next
  case (Cons c cs)
  then show ?case by (simp add: startsWith_prefix sublist_Cons_right)
qed

lemma slice_0: "slice xs 0 n = take (nat (if n < 0 then int (length xs) + n else n)) xs"
  by (auto simp: slice_def Let_def max_def min_def)

subsection \<open>White space and trimming\<close>

text \<open>
  The code units \<open>trim\<close> removes, by their numbers: 9 to 13, 32, 160, 5760, 8192 to
  8202, 8232, 8233, 8239, 8287, 12288 and 65279, and no others.
\<close>

lemma isWhiteSpace_iff:
  "isWhiteSpace c \<longleftrightarrow>
     unat c \<in> {9..13} \<union> {32, 160, 5760} \<union> {8192..8202}
              \<union> {8232, 8233, 8239, 8287, 12288, 65279}"
proof -
  have a: "{9..13} = {9, 10, 11, 12, 13 :: nat}"
    by (simp add: atLeastAtMost_upt upt_rec_numeral)
  have b: "{8192..8202}
      = {8192, 8193, 8194, 8195, 8196, 8197, 8198, 8199, 8200, 8201, 8202 :: nat}"
    by (simp add: atLeastAtMost_upt upt_rec_numeral)
  show ?thesis
    unfolding isWhiteSpace_def a b
    by (simp add: word_unat_eq_iff) blast
qed

lemma trim_strips_every_white_space:
  "trim ([9, 10, 11, 12, 13, 32, 160, 5760, 8192, 8193, 8194, 8195, 8196, 8197, 8198, 8199,
          8200, 8201, 8202, 8232, 8233, 8239, 8287, 12288, 65279]
         @ js ''a b''
         @ [65279, 12288, 8287, 8239, 8233, 8232, 8202, 8201, 8200, 8199, 8198, 8197, 8196,
            8195, 8194, 8193, 8192, 5760, 160, 32, 13, 12, 11, 10, 9])
   = js ''a b''"
  by (simp add: trim_def trimStart_def trimEnd_def isWhiteSpace_def js_def)

text \<open>
  Code units next to the white space ones are kept, among them NEXT LINE (133),
  MONGOLIAN VOWEL SEPARATOR (6158) and ZERO WIDTH SPACE (8203).
\<close>

lemma trim_keeps_other_code_units:
  "map (\<lambda>c. trim [c])
     [0, 8, 14, 31, 33, 133, 159, 161, 5759, 5761, 6158, 8191, 8203, 8231, 8234, 8238, 8240,
      8286, 8288, 12287, 12289, 65278, 65280, 65535]
   = map (\<lambda>c. [c])
     [0, 8, 14, 31, 33, 133, 159, 161, 5759, 5761, 6158, 8191, 8203, 8231, 8234, 8238, 8240,
      8286, 8288, 12287, 12289, 65278, 65280, 65535]"
  by (simp add: trim_def trimStart_def trimEnd_def isWhiteSpace_def)

text \<open>
  What \<open>trim\<close> returns: the string without a prefix and a suffix of white space, and
  with no white space left at either end.
\<close>

lemma trim_decomposition:
  "\<exists>a b. s = a @ trim s @ b \<and> list_all isWhiteSpace a \<and> list_all isWhiteSpace b"
proof -
  let ?t = "dropWhile isWhiteSpace s"
  have "s = takeWhile isWhiteSpace s @ ?t" by simp
  moreover have "?t = rev (dropWhile isWhiteSpace (rev ?t))
                      @ rev (takeWhile isWhiteSpace (rev ?t))"
    by (metis rev_append rev_rev_ident takeWhile_dropWhile_id)
  ultimately have "s = takeWhile isWhiteSpace s @ trim s
                       @ rev (takeWhile isWhiteSpace (rev ?t))"
    by (simp add: trim_def trimStart_def trimEnd_def)
  moreover have "list_all isWhiteSpace (takeWhile isWhiteSpace s)"
    and "list_all isWhiteSpace (rev (takeWhile isWhiteSpace (rev ?t)))"
    by (auto simp: list_all_iff dest: set_takeWhileD)
  ultimately show ?thesis by blast
qed

lemma trim_ends:
  assumes "trim s \<noteq> []"
  shows "\<not> isWhiteSpace (hd (trim s)) \<and> \<not> isWhiteSpace (last (trim s))"
proof -
  let ?t = "dropWhile isWhiteSpace s"
  let ?u = "dropWhile isWhiteSpace (rev ?t)"
  from assms have u: "?u \<noteq> []"
    by (simp add: trim_def trimStart_def trimEnd_def)
  have t: "?t \<noteq> []"
  proof
    assume "?t = []"
    then have "?u = []" by (simp only: rev.simps dropWhile.simps)
    with u show False by simp
  qed
  have "last (trim s) = hd ?u"
    using u by (simp add: trim_def trimStart_def trimEnd_def last_rev)
  moreover have "\<not> isWhiteSpace (hd ?u)"
    using u by (rule hd_dropWhile)
  moreover have "?t = trim s @ rev (takeWhile isWhiteSpace (rev ?t))"
    by (metis rev_append rev_rev_ident takeWhile_dropWhile_id trim_def trimStart_def
        trimEnd_def)
  then have "hd ?t = hd (trim s)"
    using assms by (metis hd_append2)
  moreover have "\<not> isWhiteSpace (hd ?t)"
    using t by (rule hd_dropWhile)
  ultimately show ?thesis by simp
qed

lemma trim_Nil: "trim [] = []"
  by (simp add: trim_def trimEnd_def trimStart_def)

lemma trim_blank:
  assumes "list_all isWhiteSpace s"
  shows "trim s = []"
proof -
  from assms have "dropWhile isWhiteSpace s = []"
    by (simp add: list_all_iff)
  then show ?thesis
    unfolding trim_def trimStart_def trimEnd_def
    by (simp only: rev.simps dropWhile.simps)
qed

lemma trim_snoc_ws:
  assumes ws: "isWhiteSpace c"
  shows "trim (s @ [c]) = trim s"
proof (cases "\<forall>x\<in>set s. isWhiteSpace x")
  case True
  then have a: "dropWhile isWhiteSpace s = []" by simp
  from True ws have b: "dropWhile isWhiteSpace (s @ [c]) = []" by simp
  show ?thesis unfolding trim_def trimStart_def by (simp only: a b)
next
  case False
  then show ?thesis
    using ws by (auto simp: trim_def trimStart_def trimEnd_def dropWhile_append1)
qed

lemma trim_id:
  assumes "s \<noteq> []" "\<not> isWhiteSpace (hd s)" "\<not> isWhiteSpace (last s)"
  shows "trim s = s"
proof -
  from assms have "trimStart s = s"
    by (cases s) (auto simp: trimStart_def)
  moreover from assms have "trimEnd s = s"
    by (cases s rule: rev_cases) (auto simp: trimEnd_def)
  ultimately show ?thesis by (simp add: trim_def)
qed

subsection \<open>Lower case on ASCII\<close>

lemma toLowerCase_ascii_folds:
  "toLowerCase_ascii (js ''ABCDEFGHIJKLMNOPQRSTUVWXYZ @[`{ az09'')
     = js ''abcdefghijklmnopqrstuvwxyz @[`{ az09''"
  by (simp add: toLowerCase_ascii_def js_def)

subsection \<open>Input filtering\<close>

lemma filter_js_Obj:
  "filter_js (filter_callback lc il) (map Obj xs)
     = Inr (map Obj (filter (snippet_matches lc il) xs))"
  by (induction xs) auto

lemma snippet_matches_iff:
  "snippet_matches lc il sn \<longleftrightarrow>
     prefix il (lc (trigger sn))
     \<or> (\<exists>n. name sn = Some n \<and> n \<noteq> [] \<and> sublist il (lc n))"
  by (cases "name sn")
     (auto simp: snippet_matches_def startsWith_prefix includes_str_sublist)

lemma filterSnippets_Obj:
  "filterSnippets lc (map Obj xs) inp =
     Inr (map Obj (if trim inp = [] then xs else filter (snippet_matches lc (lc inp)) xs))"
  by (simp add: filterSnippets_def filter_js_Obj)

text \<open>
  C3, as the code has it, for every retrieved list of snippet objects, every typed input
  and whatever the host's \<open>toLowerCase\<close> is. Trimming only decides whether the typed
  prefix counts as empty, in which case every snippet is kept. Otherwise a snippet is
  kept if and only if, with both sides put in lower case, its trigger starts with the
  prefix as typed (not trimmed) or its non-empty name contains the prefix as typed as a
  substring. The survivors are the \<open>filter\<close> of the retrieved list, so they keep their
  retrieval order. Letter case does not matter: two typed prefixes that are not blank
  and have the same lower case select the same snippets.
\<close>

theorem filterSnippets_matches_input_as_typed:
  "filterSnippets lc (map Obj xs) inp =
     Inr (map Obj
       (if trim inp = [] then xs
        else filter (\<lambda>sn. prefix (lc inp) (lc (trigger sn))
                       \<or> (\<exists>n. name sn = Some n \<and> n \<noteq> [] \<and> sublist (lc inp) (lc n)))
               xs))
   \<and> (\<forall>inp'. lc inp' = lc inp \<and> trim inp' \<noteq> [] \<and> trim inp \<noteq> []
          \<longrightarrow> filterSnippets lc (map Obj xs) inp' = filterSnippets lc (map Obj xs) inp)"
proof -
  have "snippet_matches lc (lc inp) =
      (\<lambda>sn. prefix (lc inp) (lc (trigger sn))
            \<or> (\<exists>n. name sn = Some n \<and> n \<noteq> [] \<and> sublist (lc inp) (lc n)))"
    by (intro ext snippet_matches_iff)
  then show ?thesis
    by (simp add: filterSnippets_Obj)
qed

theorem filterSnippets_matches_input_as_typed_witness:
  "toLowerCase_ascii (js ''FUN'') = toLowerCase_ascii (js ''fun'')
   \<and> trim (js ''FUN'') \<noteq> [] \<and> trim (js ''fun'') \<noteq> []
   \<and> filterSnippets toLowerCase_ascii (map Obj [snippet_function, snippet_variable])
        (js ''fun'') = Inr [Obj snippet_function]
   \<and> filterSnippets toLowerCase_ascii (map Obj [snippet_function, snippet_variable])
        (js ''FUN'') = Inr [Obj snippet_function]"
proof -
  have l: "toLowerCase_ascii (js ''FUN'') = toLowerCase_ascii (js ''fun'')"
    by (simp add: toLowerCase_ascii_def js_def)
  have t: "trim (js ''FUN'') \<noteq> []" "trim (js ''fun'') \<noteq> []"
    by (simp_all add: trim_def trimStart_def trimEnd_def isWhiteSpace_def js_def)
  have f: "filterSnippets toLowerCase_ascii (map Obj [snippet_function, snippet_variable])
        (js ''fun'') = Inr [Obj snippet_function]"
    by (simp add: filterSnippets_def snippet_matches_def snippet_function_def
        snippet_variable_def trim_def trimStart_def trimEnd_def isWhiteSpace_def
        toLowerCase_ascii_def js_def)
  from filterSnippets_matches_input_as_typed
    [where lc = toLowerCase_ascii and inp = "js ''fun''"
       and xs = "[snippet_function, snippet_variable]"] l t
  have "filterSnippets toLowerCase_ascii (map Obj [snippet_function, snippet_variable])
          (js ''FUN'')
        = filterSnippets toLowerCase_ascii (map Obj [snippet_function, snippet_variable])
          (js ''fun'')"
    by blast
  with l t f show ?thesis by simp
qed

text \<open>
  C3 as stated fails when the typed prefix carries white space: for the input
  \<^verbatim>\<open>"fun "\<close> the trimmed prefix is \<^verbatim>\<open>"fun"\<close>, which the trigger
  \<^verbatim>\<open>"function"\<close> starts with, so the specification keeps the snippet; the code
  compares with \<^verbatim>\<open>"fun "\<close> and drops it. All strings here are ASCII.
\<close>

theorem filterSnippets_trimmed_prefix_counterexample:
  "filterSnippets_spec toLowerCase_ascii [snippet_function] (js ''fun '') = [snippet_function]
   \<and> filterSnippets toLowerCase_ascii (map Obj [snippet_function]) (js ''fun '') = Inr []
   \<and> filterSnippets toLowerCase_ascii (map Obj [snippet_function]) (js ''fun '')
       \<noteq> Inr (map Obj (filterSnippets_spec toLowerCase_ascii [snippet_function] (js ''fun '')))"
  by (simp add: filterSnippets_spec_def filterSnippets_def snippet_function_def
      snippet_matches_def trim_def trimEnd_def trimStart_def isWhiteSpace_def
      toLowerCase_ascii_def js_def)

text \<open>
  Two inputs outside ASCII. A typed prefix that is a single NO-BREAK SPACE is blank, so
  every snippet is kept. With a host function that lowers the capital E with acute
  (U+00C9) to the small one (U+00E9), the typed prefix that is the small letter keeps a
  trigger that starts with the capital one.
\<close>

lemma filterSnippets_no_break_space:
  "filterSnippets lc snippets [0x00A0] = Inr snippets"
  by (simp add: filterSnippets_def trim_blank isWhiteSpace_def)

lemma filterSnippets_non_ascii_capital:
  assumes "lc ([0x00C9] @ js ''cole'') = [0x00E9] @ js ''cole''" and "lc [0x00E9] = [0x00E9]"
  shows "filterSnippets lc [Obj (snippet_bare ([0x00C9] @ js ''cole''))] [0x00E9]
           = Inr [Obj (snippet_bare ([0x00C9] @ js ''cole''))]"
  using assms
  by (simp add: filterSnippets_def snippet_matches_def snippet_bare_def trim_def
      trimStart_def trimEnd_def isWhiteSpace_def)

subsection \<open>Evaluation on concrete inputs\<close>

lemmas model_defs =
  gather_def gather_try_def getSnippets_def analyzeContext_def onInit_def
  isLuaSnipAvailable_def LuaSnipInterface_getSnippets_def SnippetCache_get_def
  SnippetCache_fetch_def SnippetCache_new_def Source_new_def params_def
  filterSnippets_def convertToItems_def snippet_matches_def buildInfoText_def
  slice_def trim_def trimStart_def trimEnd_def isWhiteSpace_def toLowerCase_ascii_def
  js_def truthy_string_def truthy_bool_def or_string_def

lemmas fixture_defs =
  mockDenops_def createMockGatherArgs_def ready_source_def snippet_function_def
  snippet_variable_def snippet_bare_def js_def

lemma ready_source_eq:
  "ready_source = \<lparr>source_cache = \<lparr>cache = Map.empty, timeout = 5000\<rparr>, isInitialized = True\<rparr>"
  by (simp add: model_defs fixture_defs)

text \<open>
  The filter test of the suite: with the input \<^verbatim>\<open>fun\<close> and the snippets
  \<^verbatim>\<open>function\<close> and \<^verbatim>\<open>variable\<close> upstream, only \<^verbatim>\<open>function\<close> is returned.
\<close>

lemma gather_filters_on_input:
  "map_sum id (map word)
     (snd (snd (gather toLowerCase_ascii ready_source 0
        (createMockGatherArgs (js ''fun'') params
           (Inr (Array [Obj snippet_function, Obj snippet_variable]))))))
   = Inr [js ''function'']"
  by (simp add: ready_source_eq model_defs fixture_defs)

subsection \<open>What one call may change\<close>

lemma filterSnippets_Nil: "filterSnippets lc [] inp = Inr []"
  by (simp add: filterSnippets_def)

lemma convertToItems_Nil: "convertToItems [] p = Inr []"
  by (simp add: convertToItems_def)

lemma slice_Nil: "slice [] a b = []"
  by (simp add: slice_def)

lemma SnippetCache_get_frame:
  assumes "SnippetCache_get c now ft fetcher = (c', invoked, r)"
  shows "timeout c' = timeout c \<and> (\<forall>k. k \<noteq> ft \<longrightarrow> cache c' k = cache c k)"
  using assms
  by (auto simp: SnippetCache_get_def SnippetCache_fetch_def
      split: option.splits sum.splits if_splits)

lemma getSnippets_frame:
  assumes "getSnippets s d now ft p = (s', f, r)"
  shows "set f \<subseteq> {ft} \<and> isInitialized s' = isInitialized s
         \<and> timeout (source_cache s') = timeout (source_cache s)
         \<and> (\<forall>k. k \<noteq> ft \<longrightarrow> cache (source_cache s') k = cache (source_cache s) k)"
  using assms
  by (auto simp: getSnippets_def dest!: SnippetCache_get_frame split: if_splits prod.splits)

lemma getSnippets_fetched:
  assumes "getSnippets s d now ft p = (s', f, r)" and "f \<noteq> []"
  shows "f = [ft] \<and> r = Inr (LuaSnipInterface_getSnippets d ft)"
  using assms
  by (auto simp: getSnippets_def SnippetCache_get_def SnippetCache_fetch_def
      split: if_splits prod.splits option.splits)

lemma getSnippets_Inr: "\<exists>xs. snd (snd (getSnippets s d now ft p)) = Inr xs"
  by (auto simp: getSnippets_def SnippetCache_get_def SnippetCache_fetch_def
      split: if_splits prod.splits option.splits)

lemma getSnippets_restricted:
  assumes "(filetypes p \<noteq> [] \<and> ft \<notin> set (filetypes p)) \<or> ft \<in> set (excludeFiletypes p)"
  shows "getSnippets s d now ft p = (s, [], Inr [])"
  using assms by (auto simp: getSnippets_def)

lemma gather_try_frame:
  assumes "gather_try lc s now args = (s', f, r)"
  shows "set f \<subseteq> {ar_filetype (analyzeContext (denops args))}
         \<and> isInitialized s' = isInitialized s
         \<and> timeout (source_cache s') = timeout (source_cache s)
         \<and> (\<forall>k. k \<noteq> ar_filetype (analyzeContext (denops args))
                \<longrightarrow> cache (source_cache s') k = cache (source_cache s) k)"
proof (cases "shouldComplete (analyzeContext (denops args))")
  case False
  with assms show ?thesis by (auto simp: gather_try_def)
next
  case True
  obtain s1 f1 r1 where g: "getSnippets s (denops args) now
      (ar_filetype (analyzeContext (denops args))) (sourceParams args) = (s1, f1, r1)"
    by (cases "getSnippets s (denops args) now
      (ar_filetype (analyzeContext (denops args))) (sourceParams args)") auto
  from assms True g have "s' = s1 \<and> f = f1"
    by (auto simp: gather_try_def split: sum.splits)
  with getSnippets_frame [OF g] show ?thesis by simp
qed

lemma gather_frame:
  assumes "gather lc s now args = (s', f, r)"
  shows "set f \<subseteq> {ar_filetype (analyzeContext (denops args))}
         \<and> isInitialized s' = isInitialized s
         \<and> timeout (source_cache s') = timeout (source_cache s)
         \<and> (\<forall>k. k \<noteq> ar_filetype (analyzeContext (denops args))
                \<longrightarrow> cache (source_cache s') k = cache (source_cache s) k)"
proof (cases "isInitialized s")
  case False
  with assms show ?thesis by (auto simp: gather_def)
next
  case True
  obtain s1 f1 r1 where g: "gather_try lc s now args = (s1, f1, r1)"
    by (cases "gather_try lc s now args") auto
  from assms True g have "s' = s1 \<and> f = f1"
    by (auto simp: gather_def split: sum.splits)
  with gather_try_frame [OF g] show ?thesis by simp
qed

lemma gather_no_snippets:
  assumes "getSnippets s (denops args) now (ar_filetype (analyzeContext (denops args)))
             (sourceParams args) = (s', f, Inr [])"
  shows "gather_try lc s now args =
           (if shouldComplete (analyzeContext (denops args)) then (s', f, Inr [])
            else (s, [], Inr []))"
  using assms
  by (simp add: gather_try_def filterSnippets_Nil convertToItems_Nil slice_Nil)

lemma gather_uninitialized: "\<not> isInitialized s \<Longrightarrow> gather lc s now args = (s, [], Inr [])"
  by (simp add: gather_def)

lemma gathers_uninitialized:
  "\<not> isInitialized s \<Longrightarrow> gathers lc s calls = replicate (length calls) ([], Inr [])"
  by (induction calls) (auto simp: gather_uninitialized)

subsection \<open>Initialization\<close>

text \<open>
  C5. When the availability check answers false (or raises, which
  \<open>isLuaSnipAvailable\<close> turns into false), \<open>onInit\<close> leaves a source that was not
  ready not ready, and every gather call of the session that follows fetches nothing and
  returns the empty sequence, whatever its arguments.
\<close>

theorem unavailable_engine_never_ready:
  assumes "\<not> isInitialized s" and "\<not> isLuaSnipAvailable d"
  shows "\<not> isInitialized (onInit s d)
         \<and> gathers lc (onInit s d) calls = replicate (length calls) ([], Inr [])"
  using assms by (simp add: onInit_def gathers_uninitialized)

theorem unavailable_engine_never_ready_witness:
  "\<not> isInitialized Source_new
   \<and> \<not> isLuaSnipAvailable
         ((mockDenops (Inr (Array [Obj snippet_function])))\<lparr>luaeval_available := Inr False\<rparr>)
   \<and> \<not> isInitialized
         (onInit Source_new
           ((mockDenops (Inr (Array [Obj snippet_function])))\<lparr>luaeval_available := Inr False\<rparr>))
   \<and> gathers toLowerCase_ascii
        (onInit Source_new
          ((mockDenops (Inr (Array [Obj snippet_function])))\<lparr>luaeval_available := Inr False\<rparr>))
        [(0, createMockGatherArgs [] params (Inr (Array [Obj snippet_function]))),
         (10, createMockGatherArgs (js ''fun'') params (Inr (Array [Obj snippet_function])))]
       = [([], Inr []), ([], Inr [])]"
proof -
  have a: "\<not> isInitialized Source_new"
    by (simp add: Source_new_def)
  have b: "\<not> isLuaSnipAvailable
      ((mockDenops (Inr (Array [Obj snippet_function])))\<lparr>luaeval_available := Inr False\<rparr>)"
    by (simp add: isLuaSnipAvailable_def mockDenops_def)
  show ?thesis
    using a b unavailable_engine_never_ready [OF a b,
        where lc = toLowerCase_ascii and calls = "[(0, createMockGatherArgs [] params (Inr (Array [Obj snippet_function]))),
             (10, createMockGatherArgs (js ''fun'') params (Inr (Array [Obj snippet_function])))]"]
    by simp
qed

subsection \<open>Allow and deny lists\<close>

text \<open>
  C6. The context key of a call is the file type \<open>analyzeContext\<close> reports. If the allow
  list \<open>filetypes\<close> is not empty and does not contain the key, or if the deny list
  \<open>excludeFiletypes\<close> contains the key, gather returns the empty sequence, fetches
  nothing and leaves the source as it was, whatever the bridge would have answered.
\<close>

theorem gather_allow_deny_lists:
  assumes "(filetypes (sourceParams args) \<noteq> []
              \<and> ar_filetype (analyzeContext (denops args)) \<notin> set (filetypes (sourceParams args)))
           \<or> ar_filetype (analyzeContext (denops args)) \<in> set (excludeFiletypes (sourceParams args))"
  shows "gather lc s now args = (s, [], Inr [])"
proof -
  have "getSnippets s (denops args) now (ar_filetype (analyzeContext (denops args)))
             (sourceParams args) = (s, [], Inr [])"
    using assms by (rule getSnippets_restricted)
  then have "gather_try lc s now args = (s, [], Inr [])"
    by (simp add: gather_no_snippets)
  then show ?thesis by (simp add: gather_def)
qed

theorem gather_allow_deny_lists_witness:
  "gather toLowerCase_ascii ready_source 0
     (createMockGatherArgs [] (params\<lparr>excludeFiletypes := [js ''typescript'']\<rparr>)
        (Inr (Array [Obj snippet_function])))
     = (ready_source, [], Inr [])
   \<and> gather toLowerCase_ascii ready_source 0
     (createMockGatherArgs [] (params\<lparr>filetypes := [js ''python'']\<rparr>)
        (Inr (Array [Obj snippet_function])))
     = (ready_source, [], Inr [])
   \<and> isInitialized ready_source
   \<and> LuaSnipInterface_getSnippets (mockDenops (Inr (Array [Obj snippet_function])))
        (js ''typescript'') = [Obj snippet_function]"
proof -
  have a: "gather toLowerCase_ascii ready_source 0
     (createMockGatherArgs [] (params\<lparr>excludeFiletypes := [js ''typescript'']\<rparr>)
        (Inr (Array [Obj snippet_function])))
     = (ready_source, [], Inr [])"
    by (rule gather_allow_deny_lists)
       (simp add: createMockGatherArgs_def mockDenops_def analyzeContext_def params_def
          js_def)
  have b: "gather toLowerCase_ascii ready_source 0
     (createMockGatherArgs [] (params\<lparr>filetypes := [js ''python'']\<rparr>)
        (Inr (Array [Obj snippet_function])))
     = (ready_source, [], Inr [])"
    by (rule gather_allow_deny_lists)
       (simp add: createMockGatherArgs_def mockDenops_def analyzeContext_def params_def
          js_def)
  have c: "isInitialized ready_source"
    by (simp add: ready_source_eq)
  have d: "LuaSnipInterface_getSnippets (mockDenops (Inr (Array [Obj snippet_function])))
        (js ''typescript'') = [Obj snippet_function]"
    by (simp add: LuaSnipInterface_getSnippets_def mockDenops_def)
  from a b c d show ?thesis by simp
qed

subsection \<open>Options without effect\<close>

lemma convert_callback_flags:
  "convert_callback (p\<lparr>showCondition := a, enableRegexTrigger := b, debug := c\<rparr>)
     = convert_callback p"
  by (rule ext) (case_tac x; simp)

lemma convertToItems_flags:
  "convertToItems xs (p\<lparr>showCondition := a, enableRegexTrigger := b, debug := c\<rparr>)
     = convertToItems xs p"
  by (simp add: convertToItems_def convert_callback_flags)

lemma getSnippets_flags:
  "getSnippets s d now ft (p\<lparr>showCondition := a, enableRegexTrigger := b, debug := c\<rparr>)
     = getSnippets s d now ft p"
  by (simp add: getSnippets_def)

lemma gather_try_flags:
  "gather_try lc s now
     (args\<lparr>sourceParams :=
        (sourceParams args)\<lparr>showCondition := a, enableRegexTrigger := b, debug := c\<rparr>\<rparr>)
   = gather_try lc s now args"
  unfolding gather_try_def Let_def
  by (simp add: getSnippets_flags convertToItems_flags split: prod.splits sum.splits)

text \<open>
  C9. Two gather calls on the same source, at the same clock reading, with the same
  bridge answers, context and configuration except for \<open>showCondition\<close>,
  \<open>enableRegexTrigger\<close> and \<open>debug\<close>, return the same candidates (and fetch the same,
  and leave the same source behind).
\<close>

theorem gather_ignores_informational_flags:
  "gather lc s now
     (args\<lparr>sourceParams :=
        (sourceParams args)\<lparr>showCondition := a, enableRegexTrigger := b, debug := c\<rparr>\<rparr>)
   = gather lc s now args"
  unfolding gather_def by (simp only: gather_try_flags)

subsection \<open>Context analysis\<close>

lemma analyzeContext_eval_all:
  "analyzeContext (d\<lparr>eval_filetype := Inr (js ''all'')\<rparr>) = \<lparr>shouldComplete = True, ar_filetype = js ''all''\<rparr>"
  by (simp add: analyzeContext_def)

text \<open>
  C10. When the editor reports the empty string as the file type, context analysis does
  not abort the call: it reports that completion should go on, with the context key
  \<^verbatim>\<open>all\<close>. The call behaves as one for which the editor reported \<^verbatim>\<open>all\<close>: the
  allow and deny lists are asked about \<^verbatim>\<open>all\<close>, no file type other than \<^verbatim>\<open>all\<close>
  is fetched over the bridge, and no cache entry other than that of \<^verbatim>\<open>all\<close> changes.
\<close>

theorem empty_filetype_uses_key_all:
  assumes "eval_filetype (denops args) = Inr []"
  shows "analyzeContext (denops args) = \<lparr>shouldComplete = True, ar_filetype = js ''all''\<rparr>
         \<and> gather lc s now args
             = gather lc s now (args\<lparr>denops := (denops args)\<lparr>eval_filetype := Inr (js ''all'')\<rparr>\<rparr>)
         \<and> set (fst (snd (gather lc s now args))) \<subseteq> {(js ''all'')}
         \<and> (\<forall>k. k \<noteq> (js ''all'') \<longrightarrow>
               cache (source_cache (fst (gather lc s now args))) k = cache (source_cache s) k)"
proof -
  have a: "analyzeContext (denops args) = \<lparr>shouldComplete = True, ar_filetype = js ''all''\<rparr>"
    using assms by (simp add: analyzeContext_def)
  have g: "getSnippets s ((denops args)\<lparr>eval_filetype := Inr (js ''all'')\<rparr>) now ft p
             = getSnippets s (denops args) now ft p" for ft p
    by (simp add: getSnippets_def LuaSnipInterface_getSnippets_def)
  have "gather_try lc s now args
          = gather_try lc s now (args\<lparr>denops := (denops args)\<lparr>eval_filetype := Inr (js ''all'')\<rparr>\<rparr>)"
    unfolding gather_try_def Let_def
    by (simp add: a analyzeContext_eval_all g split: prod.splits sum.splits)
  then have b: "gather lc s now args
          = gather lc s now (args\<lparr>denops := (denops args)\<lparr>eval_filetype := Inr (js ''all'')\<rparr>\<rparr>)"
    by (simp add: gather_def)
  obtain s' f r where o: "gather lc s now args = (s', f, r)"
    by (cases "gather lc s now args") auto
  from gather_frame [OF o] a o have c: "set (fst (snd (gather lc s now args))) \<subseteq> {(js ''all'')}"
    and d: "\<forall>k. k \<noteq> (js ''all'') \<longrightarrow>
               cache (source_cache (fst (gather lc s now args))) k = cache (source_cache s) k"
    by simp_all
  from a b c d show ?thesis by blast
qed

theorem empty_filetype_uses_key_all_witness:
  "eval_filetype (denops ((createMockGatherArgs [] params (Inr (Array [Obj snippet_function])))
      \<lparr>denops := (mockDenops (Inr (Array [Obj snippet_function])))\<lparr>eval_filetype := Inr []\<rparr>\<rparr>)) = Inr []
   \<and> analyzeContext ((mockDenops (Inr (Array [Obj snippet_function])))\<lparr>eval_filetype := Inr []\<rparr>)
       = \<lparr>shouldComplete = True, ar_filetype = js ''all''\<rparr>
   \<and> fst (snd (gather toLowerCase_ascii ready_source 7
        ((createMockGatherArgs [] params (Inr (Array [Obj snippet_function])))
      \<lparr>denops := (mockDenops (Inr (Array [Obj snippet_function])))\<lparr>eval_filetype := Inr []\<rparr>\<rparr>))) = [js ''all'']
   \<and> cache (source_cache (fst (gather toLowerCase_ascii ready_source 7
        ((createMockGatherArgs [] params (Inr (Array [Obj snippet_function])))
      \<lparr>denops := (mockDenops (Inr (Array [Obj snippet_function])))\<lparr>eval_filetype := Inr []\<rparr>\<rparr>)))) (js ''all'')
       = Some \<lparr>data = [Obj snippet_function], timestamp = 7\<rparr>
   \<and> cache (source_cache (fst (gather toLowerCase_ascii ready_source 7
        ((createMockGatherArgs [] params (Inr (Array [Obj snippet_function])))
      \<lparr>denops := (mockDenops (Inr (Array [Obj snippet_function])))\<lparr>eval_filetype := Inr []\<rparr>\<rparr>)))) [] = None"
proof -
  let ?args = "(createMockGatherArgs [] params (Inr (Array [Obj snippet_function])))
      \<lparr>denops := (mockDenops (Inr (Array [Obj snippet_function])))\<lparr>eval_filetype := Inr []\<rparr>\<rparr>"
  have h: "eval_filetype (denops ?args) = Inr []"
    by simp
  have e: "gather toLowerCase_ascii ready_source 7 ?args =
     (ready_source\<lparr>source_cache := (source_cache ready_source)\<lparr>cache :=
         (cache (source_cache ready_source))((js ''all'') \<mapsto> \<lparr>data = [Obj snippet_function], timestamp = 7\<rparr>)\<rparr>\<rparr>,
      [js ''all''], Inr [\<lparr>word = js ''function'', abbr = js ''Function Declaration'',
          menu = js ''[LS] Create a function'',
          info = js ''Trigger: function'' @ [0x0A] @ js ''Name: Function Declaration'' @ [0x0A] @ js ''Description: Create a function'' @ [0x0A] @ js ''Filetype: typescript'' @ [0x0A] @ js ''Flags: word trigger'',
          kind = js ''Snippet'', item_dup = False\<rparr>])"
    by (simp add: ready_source_eq model_defs fixture_defs)
  from empty_filetype_uses_key_all [OF h, where lc = toLowerCase_ascii and s = ready_source and now = 7]
  have "analyzeContext (denops ?args) = \<lparr>shouldComplete = True, ar_filetype = js ''all''\<rparr>"
    and "\<forall>k. k \<noteq> (js ''all'') \<longrightarrow>
               cache (source_cache (fst (gather toLowerCase_ascii ready_source 7 ?args))) k = cache (source_cache ready_source) k"
    by blast+
  then have "analyzeContext ((mockDenops (Inr (Array [Obj snippet_function])))\<lparr>eval_filetype := Inr []\<rparr>)
       = \<lparr>shouldComplete = True, ar_filetype = js ''all''\<rparr>"
    and "cache (source_cache (fst (gather toLowerCase_ascii ready_source 7 ?args))) [] = None"
    by (simp_all add: createMockGatherArgs_def ready_source_eq js_def)
  with h e show ?thesis by (simp add: ready_source_eq)
qed

subsection \<open>Failures\<close>

lemma gather_Inr: "\<exists>s' fetched items. gather lc s now args = (s', fetched, Inr items)"
proof (cases "isInitialized s")
  case False
  then show ?thesis by (simp add: gather_def)
next
  case True
  obtain s1 f1 r1 where g: "gather_try lc s now args = (s1, f1, r1)"
    by (cases "gather_try lc s now args") auto
  with True show ?thesis by (cases r1) (simp_all add: gather_def)
qed

lemma gather_catches:
  assumes "isInitialized s" and "gather_try lc s now args = (s', fetched, Inl e)"
  shows "gather lc s now args = (s', fetched, Inr [])"
  using assms by (simp add: gather_def)

lemma gather_eval_raises:
  assumes "eval_filetype (denops args) = Inl e"
  shows "gather lc s now args = (s, [], Inr [])"
  using assms by (simp add: gather_def gather_try_def analyzeContext_def)

lemma LuaSnipInterface_getSnippets_failure:
  assumes "(\<exists>e. luaeval_snippets d ft = Inl e) \<or> luaeval_snippets d ft = Inr NotArray"
  shows "LuaSnipInterface_getSnippets d ft = []"
  using assms by (auto simp: LuaSnipInterface_getSnippets_def)

lemma gather_try_aborted:
  "\<not> shouldComplete (analyzeContext (denops args)) \<Longrightarrow> gather_try lc s now args = (s, [], Inr [])"
  by (simp add: gather_try_def)

lemma gather_try_fetched:
  assumes "shouldComplete (analyzeContext (denops args))"
    and "getSnippets s (denops args) now (ar_filetype (analyzeContext (denops args)))
           (sourceParams args) = (s1, f1, r1)"
  shows "fst (gather_try lc s now args) = s1 \<and> fst (snd (gather_try lc s now args)) = f1"
  using assms by (simp add: gather_try_def split: sum.splits)

lemma gather_fetched:
  "fst (snd (gather lc s now args)) = (if isInitialized s then fst (snd (gather_try lc s now args)) else [])"
  by (cases "gather_try lc s now args") (simp add: gather_def split: sum.splits)

lemma gather_fetch_fails:
  assumes f: "fst (snd (gather lc s now args)) = [key]"
    and bad: "(\<exists>e. luaeval_snippets (denops args) key = Inl e)
              \<or> luaeval_snippets (denops args) key = Inr NotArray"
  shows "snd (snd (gather lc s now args)) = Inr []"
proof -
  from f have init: "isInitialized s" and ft: "fst (snd (gather_try lc s now args)) = [key]"
    by (auto simp: gather_fetched split: if_splits)
  from ft have sc: "shouldComplete (analyzeContext (denops args))"
    by (rule contrapos_pp) (simp add: gather_try_aborted)
  obtain s1 f1 r1 where g: "getSnippets s (denops args) now
      (ar_filetype (analyzeContext (denops args))) (sourceParams args) = (s1, f1, r1)"
    by (cases "getSnippets s (denops args) now
      (ar_filetype (analyzeContext (denops args))) (sourceParams args)") auto
  from ft gather_try_fetched [OF sc g] have "f1 = [key]"
    by simp
  with getSnippets_fetched [OF g] have k: "ar_filetype (analyzeContext (denops args)) = key"
    and r: "r1 = Inr (LuaSnipInterface_getSnippets (denops args) key)"
    by auto
  from bad have "LuaSnipInterface_getSnippets (denops args) key = []"
    by (rule LuaSnipInterface_getSnippets_failure)
  with g r have "gather_try lc s now args = (s1, f1, Inr [])"
    using sc by (simp add: gather_no_snippets)
  with init show ?thesis by (simp add: gather_def)
qed

text \<open>
  C4. Whatever the source, the clock and the arguments, gather hands the framework a
  list of items, never an exception. If the body of its \<^verbatim>\<open>try\<close> block raises (in
  this model: a \<^verbatim>\<open>null\<close> element met by the input filter or by the conversion), the
  call returns the empty list. The failures caught further down end the same way: a file
  type read that raises gives the empty list, and so does a snippet fetch of this call
  whose bridge call raises or answers something that is not an array.
\<close>

theorem gather_never_raises:
  "(\<exists>s' fetched items. gather lc s now args = (s', fetched, Inr items))
   \<and> (\<forall>s' fetched e. isInitialized s \<and> gather_try lc s now args = (s', fetched, Inl e)
         \<longrightarrow> gather lc s now args = (s', fetched, Inr []))
   \<and> (\<forall>e. eval_filetype (denops args) = Inl e \<longrightarrow> gather lc s now args = (s, [], Inr []))
   \<and> (\<forall>key. fst (snd (gather lc s now args)) = [key]
           \<and> ((\<exists>e. luaeval_snippets (denops args) key = Inl e)
                \<or> luaeval_snippets (denops args) key = Inr NotArray)
         \<longrightarrow> snd (snd (gather lc s now args)) = Inr [])"
  using gather_Inr [of lc s now args]
  by (auto intro: gather_catches gather_eval_raises gather_fetch_fails simp del: split_paired_Ex split_paired_All)

theorem gather_never_raises_witness:
  "gather_try toLowerCase_ascii ready_source 0
       (createMockGatherArgs (js ''fun'') params (Inr (Array [Obj snippet_function, Null])))
     = (ready_source\<lparr>source_cache := \<lparr>cache = [(js ''typescript'') \<mapsto>
            \<lparr>data = [Obj snippet_function, Null], timestamp = 0\<rparr>], timeout = 5000\<rparr>\<rparr>,
        [js ''typescript''], Inl TypeError)
   \<and> gather toLowerCase_ascii ready_source 0
       (createMockGatherArgs (js ''fun'') params (Inr (Array [Obj snippet_function, Null])))
     = (ready_source\<lparr>source_cache := \<lparr>cache = [(js ''typescript'') \<mapsto>
            \<lparr>data = [Obj snippet_function, Null], timestamp = 0\<rparr>], timeout = 5000\<rparr>\<rparr>,
        [js ''typescript''], Inr [])
   \<and> gather toLowerCase_ascii ready_source 0
       ((createMockGatherArgs (js ''fun'') params (Inr (Array [Obj snippet_function])))
          \<lparr>denops := (mockDenops (Inr (Array [Obj snippet_function])))
             \<lparr>eval_filetype := Inl (Thrown (''E492''))\<rparr>\<rparr>)
     = (ready_source, [], Inr [])
   \<and> fst (snd (gather toLowerCase_ascii ready_source 0
       (createMockGatherArgs (js ''fun'') params (Inl (Thrown (''Lua execution error'')))))) = [js ''typescript'']
   \<and> snd (snd (gather toLowerCase_ascii ready_source 0
       (createMockGatherArgs (js ''fun'') params (Inl (Thrown (''Lua execution error'')))))) = Inr []"
proof -
  let ?a1 = "createMockGatherArgs (js ''fun'') params (Inr (Array [Obj snippet_function, Null]))"
  let ?s1 = "ready_source\<lparr>source_cache := \<lparr>cache = [(js ''typescript'') \<mapsto>
            \<lparr>data = [Obj snippet_function, Null], timestamp = 0\<rparr>], timeout = 5000\<rparr>\<rparr>"
  let ?a2 = "(createMockGatherArgs (js ''fun'') params (Inr (Array [Obj snippet_function])))
          \<lparr>denops := (mockDenops (Inr (Array [Obj snippet_function])))
             \<lparr>eval_filetype := Inl (Thrown (''E492''))\<rparr>\<rparr>"
  let ?a3 = "createMockGatherArgs (js ''fun'') params (Inl (Thrown (''Lua execution error'')))"
  have i: "isInitialized ready_source"
    by (simp add: ready_source_eq)
  have t1: "gather_try toLowerCase_ascii ready_source 0 ?a1 = (?s1, [js ''typescript''], Inl TypeError)"
    by (simp add: ready_source_eq model_defs fixture_defs)
  have e2: "eval_filetype (denops ?a2) = Inl (Thrown (''E492''))"
    by simp
  have f3: "fst (snd (gather toLowerCase_ascii ready_source 0 ?a3)) = [js ''typescript'']"
    by (simp add: ready_source_eq model_defs fixture_defs)
  have b3: "(\<exists>e. luaeval_snippets (denops ?a3) (js ''typescript'') = Inl e)
                \<or> luaeval_snippets (denops ?a3) (js ''typescript'') = Inr NotArray"
    by (simp add: fixture_defs)
  from gather_never_raises [of toLowerCase_ascii ready_source 0 ?a1] i t1
  have g1: "gather toLowerCase_ascii ready_source 0 ?a1 = (?s1, [js ''typescript''], Inr [])"
    by blast
  from gather_never_raises [of toLowerCase_ascii ready_source 0 ?a2] e2
  have g2: "gather toLowerCase_ascii ready_source 0 ?a2 = (ready_source, [], Inr [])"
    by blast
  from gather_never_raises [of toLowerCase_ascii ready_source 0 ?a3] f3 b3
  have g3: "snd (snd (gather toLowerCase_ascii ready_source 0 ?a3)) = Inr []"
    by blast
  from t1 g1 g2 f3 g3 show ?thesis by simp
qed

subsection \<open>Truncation\<close>

lemma gather_pipeline:
  assumes "isInitialized s" and "shouldComplete (analyzeContext (denops args))"
    and "getSnippets s (denops args) now (ar_filetype (analyzeContext (denops args)))
           (sourceParams args) = (s', fetched, Inr snippets)"
    and "filterSnippets lc snippets (input (ctx args)) = Inr filtered"
    and "convertToItems filtered (sourceParams args) = Inr conv"
  shows "gather lc s now args = (s', fetched, Inr (slice conv 0 (maxCandidates (sourceParams args))))"
  using assms by (simp add: gather_def gather_try_def)

lemma gather_result_cases:
  "\<exists>s' fetched. gather lc s now args = (s', fetched, Inr [])
     \<or> (\<exists>conv. gather lc s now args
           = (s', fetched, Inr (slice conv 0 (maxCandidates (sourceParams args)))))"
proof (cases "isInitialized s \<and> shouldComplete (analyzeContext (denops args))")
  case False
  then show ?thesis by (auto simp: gather_def gather_try_def)
next
  case True
  obtain s1 f1 r1 where g: "getSnippets s (denops args) now
      (ar_filetype (analyzeContext (denops args))) (sourceParams args) = (s1, f1, r1)"
    by (cases "getSnippets s (denops args) now
      (ar_filetype (analyzeContext (denops args))) (sourceParams args)") auto
  with True show ?thesis
    by (auto simp: gather_def gather_try_def split: sum.splits)
qed

lemma length_slice_0: "0 \<le> n \<Longrightarrow> int (length (slice xs 0 n)) \<le> n"
  by (simp add: slice_0)

text \<open>
  C7, as the code has it. When \<open>maxCandidates\<close> is not negative, no gather call
  returns more than \<open>maxCandidates\<close> items. Whenever a call gets as far as the
  conversion, what it returns is a head prefix of the converted surviving snippets, in
  their order: the first \<open>maxCandidates\<close> of them, or, for a negative \<open>maxCandidates\<close>,
  all but the last \<open>- maxCandidates\<close> of them.
\<close>

theorem gather_head_truncation:
  "(0 \<le> maxCandidates (sourceParams args) \<longrightarrow>
      (\<exists>s' fetched items. gather lc s now args = (s', fetched, Inr items)
         \<and> int (length items) \<le> maxCandidates (sourceParams args)))
   \<and> (\<forall>s' fetched snippets filtered conv.
        isInitialized s \<and> shouldComplete (analyzeContext (denops args))
        \<and> getSnippets s (denops args) now (ar_filetype (analyzeContext (denops args)))
             (sourceParams args) = (s', fetched, Inr snippets)
        \<and> filterSnippets lc snippets (input (ctx args)) = Inr filtered
        \<and> convertToItems filtered (sourceParams args) = Inr conv
        \<longrightarrow> gather lc s now args
              = (s', fetched,
                 Inr (take (nat (if maxCandidates (sourceParams args) < 0
                                 then int (length conv) + maxCandidates (sourceParams args)
                                 else maxCandidates (sourceParams args))) conv)))"
proof (intro conjI impI allI)
  assume n: "0 \<le> maxCandidates (sourceParams args)"
  from gather_result_cases [of lc s now args] obtain s' fetched where
    "gather lc s now args = (s', fetched, Inr [])
     \<or> (\<exists>conv. gather lc s now args
           = (s', fetched, Inr (slice conv 0 (maxCandidates (sourceParams args)))))"
    by blast
  then show "\<exists>s' fetched items. gather lc s now args = (s', fetched, Inr items)
         \<and> int (length items) \<le> maxCandidates (sourceParams args)"
  proof
    assume "gather lc s now args = (s', fetched, Inr [])"
    with n show ?thesis by simp
  next
    assume "\<exists>conv. gather lc s now args
           = (s', fetched, Inr (slice conv 0 (maxCandidates (sourceParams args))))"
    then obtain conv where "gather lc s now args
           = (s', fetched, Inr (slice conv 0 (maxCandidates (sourceParams args))))"
      by blast
    with length_slice_0 [OF n, of conv] show ?thesis by simp
  qed
next
  fix s' fetched snippets filtered conv
  assume "isInitialized s \<and> shouldComplete (analyzeContext (denops args))
        \<and> getSnippets s (denops args) now (ar_filetype (analyzeContext (denops args)))
             (sourceParams args) = (s', fetched, Inr snippets)
        \<and> filterSnippets lc snippets (input (ctx args)) = Inr filtered
        \<and> convertToItems filtered (sourceParams args) = Inr conv"
  then have "gather lc s now args
      = (s', fetched, Inr (slice conv 0 (maxCandidates (sourceParams args))))"
    by (auto intro: gather_pipeline)
  then show "gather lc s now args
              = (s', fetched,
                 Inr (take (nat (if maxCandidates (sourceParams args) < 0
                                 then int (length conv) + maxCandidates (sourceParams args)
                                 else maxCandidates (sourceParams args))) conv))"
    by (simp only: slice_0)
qed

theorem gather_head_truncation_witness:
  "0 \<le> maxCandidates (params\<lparr>maxCandidates := 2\<rparr>)
   \<and> convertToItems [Obj (snippet_bare (js ''snippet1'')), Obj (snippet_bare (js ''snippet2'')),
                      Obj (snippet_bare (js ''snippet3''))] (params\<lparr>maxCandidates := 2\<rparr>)
       = Inr (map (\<lambda>t. \<lparr>word = t, abbr = t, menu = js ''[LS]'',
                          info = js ''Trigger: '' @ t @ [0x0A] @ js ''Filetype: typescript'',
                          kind = js ''Snippet'', item_dup = False\<rparr>)
                [(js ''snippet1''), (js ''snippet2''), (js ''snippet3'')])
   \<and> snd (snd (gather toLowerCase_ascii ready_source 0 (createMockGatherArgs [] (params\<lparr>maxCandidates := 2\<rparr>)
        (Inr (Array [Obj (snippet_bare (js ''snippet1'')), Obj (snippet_bare (js ''snippet2'')),
                     Obj (snippet_bare (js ''snippet3''))])))))
       = Inr (map (\<lambda>t. \<lparr>word = t, abbr = t, menu = js ''[LS]'',
                          info = js ''Trigger: '' @ t @ [0x0A] @ js ''Filetype: typescript'',
                          kind = js ''Snippet'', item_dup = False\<rparr>)
                [(js ''snippet1''), (js ''snippet2'')])"
proof -
  let ?p = "params\<lparr>maxCandidates := 2\<rparr>"
  let ?xs = "[Obj (snippet_bare (js ''snippet1'')), Obj (snippet_bare (js ''snippet2'')),
              Obj (snippet_bare (js ''snippet3''))]"
  let ?a = "createMockGatherArgs [] ?p (Inr (Array ?xs))"
  let ?item = "\<lambda>t. \<lparr>word = t, abbr = t, menu = js ''[LS]'',
                          info = js ''Trigger: '' @ t @ [0x0A] @ js ''Filetype: typescript'',
                          kind = js ''Snippet'', item_dup = False\<rparr>"
  let ?s' = "ready_source\<lparr>source_cache := \<lparr>cache = [(js ''typescript'') \<mapsto>
            \<lparr>data = ?xs, timestamp = 0\<rparr>], timeout = 5000\<rparr>\<rparr>"
  have n: "0 \<le> maxCandidates ?p" by simp
  have i: "isInitialized ready_source" by (simp add: ready_source_eq)
  have sc: "shouldComplete (analyzeContext (denops ?a))"
    and k: "ar_filetype (analyzeContext (denops ?a)) = js ''typescript''"
    by (simp_all add: analyzeContext_def fixture_defs)
  have g: "getSnippets ready_source (denops ?a) 0 (ar_filetype (analyzeContext (denops ?a)))
             (sourceParams ?a) = (?s', [js ''typescript''], Inr ?xs)"
    by (simp add: k) (simp add: ready_source_eq model_defs fixture_defs)
  have f: "filterSnippets toLowerCase_ascii ?xs (input (ctx ?a)) = Inr ?xs"
    by (simp add: createMockGatherArgs_def filterSnippets_def trim_Nil)
  have c: "convertToItems ?xs ?p = Inr (map ?item [(js ''snippet1''), (js ''snippet2''), (js ''snippet3'')])"
    by (simp add: model_defs fixture_defs)
  then have c': "convertToItems ?xs (sourceParams ?a)
                   = Inr (map ?item [(js ''snippet1''), (js ''snippet2''), (js ''snippet3'')])"
    by (simp add: createMockGatherArgs_def)
  from gather_head_truncation [where args = ?a and lc = toLowerCase_ascii and s = ready_source and now = 0] i sc g f c'
  have "gather toLowerCase_ascii ready_source 0 ?a
      = (?s', [js ''typescript''],
         Inr (take (nat (if maxCandidates (sourceParams ?a) < 0
                         then int (length (map ?item [(js ''snippet1''), (js ''snippet2''), (js ''snippet3'')]))
                              + maxCandidates (sourceParams ?a)
                         else maxCandidates (sourceParams ?a)))
                (map ?item [(js ''snippet1''), (js ''snippet2''), (js ''snippet3'')])))"
    by blast
  then have "snd (snd (gather toLowerCase_ascii ready_source 0 ?a)) = Inr (map ?item [(js ''snippet1''), (js ''snippet2'')])"
    by (simp add: createMockGatherArgs_def)
  with n c show ?thesis by simp
qed

text \<open>
  C7 as stated fails for a negative \<open>maxCandidates\<close>: \<^verbatim>\<open>slice(0, -1)\<close> drops the
  last item only, so with three snippets upstream the call returns two items, more than
  the configured \<open>- 1\<close>.
\<close>

theorem gather_negative_maxCandidates_counterexample:
  "snd (snd (gather toLowerCase_ascii ready_source 0
      (createMockGatherArgs [] (params\<lparr>maxCandidates := - 1\<rparr>)
        (Inr (Array [Obj (snippet_bare (js ''snippet1'')), Obj (snippet_bare (js ''snippet2'')),
                     Obj (snippet_bare (js ''snippet3''))])))))
     = Inr (map (\<lambda>t. \<lparr>word = t, abbr = t, menu = js ''[LS]'',
                        info = js ''Trigger: '' @ t @ [0x0A] @ js ''Filetype: typescript'',
                        kind = js ''Snippet'', item_dup = False\<rparr>)
              [(js ''snippet1''), (js ''snippet2'')])
   \<and> \<not> int (length (map (\<lambda>t. \<lparr>word = t, abbr = t, menu = js ''[LS]'',
                        info = js ''Trigger: '' @ t @ [0x0A] @ js ''Filetype: typescript'',
                        kind = js ''Snippet'', item_dup = False\<rparr>)
              [(js ''snippet1''), (js ''snippet2'')]))
         \<le> maxCandidates (sourceParams
               (createMockGatherArgs [] (params\<lparr>maxCandidates := - 1\<rparr>)
                 (Inr (Array [Obj (snippet_bare (js ''snippet1'')), Obj (snippet_bare (js ''snippet2'')),
                              Obj (snippet_bare (js ''snippet3''))]))))"
  by (simp add: ready_source_eq model_defs fixture_defs)

subsection \<open>Conversion\<close>

lemma map_js_Obj:
  "map_js (convert_callback p) (map Obj xs)
     = Inr (map (\<lambda>sn. \<lparr>word = trigger sn,
          abbr = or_string (name sn) (trigger sn),
          menu = trim (mark p @ js '' '' @ or_string (description sn) []),
          info = buildInfoText sn,
          kind = js ''Snippet'',
          item_dup = dup p\<rparr>) xs)"
  by (induction xs) auto

lemma buildInfoText_lines:
  "buildInfoText sn =
     join [0x0A]
       ([js ''Trigger: '' @ trigger sn]
        @ (case name sn of None \<Rightarrow> []
           | Some n \<Rightarrow> if n = [] then [] else [js ''Name: '' @ n])
        @ (case description sn of None \<Rightarrow> []
           | Some d \<Rightarrow> if d = [] then [] else [js ''Description: '' @ d])
        @ [js ''Filetype: '' @ filetype sn]
        @ (if wordTrig sn = Some True \<and> regTrig sn = Some True
             then [js ''Flags: word trigger, regex trigger'']
           else if wordTrig sn = Some True then [js ''Flags: word trigger'']
           else if regTrig sn = Some True then [js ''Flags: regex trigger'']
           else []))"
  by (auto simp: buildInfoText_def truthy_string_def truthy_bool_def or_string_def Let_def
      js_def split: option.splits)

text \<open>
  C8, as the code has it. Each snippet object becomes one candidate, in order, with:
  word = trigger; display label = name if there is a non-empty one, else trigger;
  menu = the mark, a space and the description (nothing when there is no description),
  with the white space at both ends of the whole string trimmed; info = the lines
  Trigger, Name (for a non-empty name), Description (for a non-empty description),
  Filetype and, only when a flag is true, Flags listing \<^verbatim>\<open>word trigger\<close> and
  \<^verbatim>\<open>regex trigger\<close> for the flags that are true, joined by line feeds;
  kind = \<^verbatim>\<open>Snippet\<close>; dup = the configured \<open>dup\<close>.
\<close>

theorem convertToItems_candidate_fields:
  "convertToItems (map Obj xs) p =
     Inr (map (\<lambda>sn.
       \<lparr>word = trigger sn,
        abbr = (case name sn of None \<Rightarrow> trigger sn
                | Some n \<Rightarrow> if n = [] then trigger sn else n),
        menu = trim (mark p @ js '' '' @ (case description sn of None \<Rightarrow> [] | Some d \<Rightarrow> d)),
        info = join [0x0A]
          ([js ''Trigger: '' @ trigger sn]
           @ (case name sn of None \<Rightarrow> []
              | Some n \<Rightarrow> if n = [] then [] else [js ''Name: '' @ n])
           @ (case description sn of None \<Rightarrow> []
              | Some d \<Rightarrow> if d = [] then [] else [js ''Description: '' @ d])
           @ [js ''Filetype: '' @ filetype sn]
           @ (if wordTrig sn = Some True \<and> regTrig sn = Some True
                then [js ''Flags: word trigger, regex trigger'']
              else if wordTrig sn = Some True then [js ''Flags: word trigger'']
              else if regTrig sn = Some True then [js ''Flags: regex trigger'']
              else [])),
        kind = js ''Snippet'',
        item_dup = dup p\<rparr>) xs)"
proof -
  have "or_string v d = (case v of None \<Rightarrow> d | Some n \<Rightarrow> if n = [] then d else n)" for v d
    by (simp add: or_string_def split: option.splits)
  moreover have "or_string v [] = (case v of None \<Rightarrow> [] | Some d \<Rightarrow> d)" for v
    by (simp add: or_string_def split: option.splits)
  ultimately show ?thesis
    by (simp add: convertToItems_def map_js_Obj buildInfoText_lines)
qed

text \<open>
  What the trimming of the menu text amounts to: the menu text is the mark, a space and
  the description with a run of white space removed at the front and one at the back,
  and it neither starts nor ends with white space. Without a description it is the
  trimmed mark, and it is the plain concatenation when the mark does not start with white
  space and the description does not end with it.
\<close>

lemma menu_trimmed_at_both_ends:
  assumes "convert_callback p (Obj sn) = Inr item"
  shows "(\<exists>a b. mark p @ js '' '' @ (case description sn of None \<Rightarrow> [] | Some d \<Rightarrow> d)
                  = a @ menu item @ b
                \<and> list_all isWhiteSpace a \<and> list_all isWhiteSpace b)
         \<and> (menu item = []
              \<or> isWhiteSpace (hd (menu item)) = False \<and> isWhiteSpace (last (menu item)) = False)"
proof -
  have "or_string v [] = (case v of None \<Rightarrow> [] | Some d \<Rightarrow> d)" for v
    by (simp add: or_string_def split: option.splits)
  with assms have
    m: "menu item = trim (mark p @ js '' '' @ (case description sn of None \<Rightarrow> [] | Some d \<Rightarrow> d))"
    by auto
  show ?thesis
    unfolding m
    using trim_decomposition
      [of "mark p @ js '' '' @ (case description sn of None \<Rightarrow> [] | Some d \<Rightarrow> d)"]
      trim_ends [of "mark p @ js '' '' @ (case description sn of None \<Rightarrow> [] | Some d \<Rightarrow> d)"]
    by blast
qed

lemma menu_without_description:
  "trim (mark p @ js '' '' @ []) = trim (mark p)"
  using trim_snoc_ws [of "0x20" "mark p"] by (simp add: isWhiteSpace_def js_def)

lemma menu_untouched:
  assumes "mark p \<noteq> []" "\<not> isWhiteSpace (hd (mark p))" "d \<noteq> []" "\<not> isWhiteSpace (last d)"
  shows "trim (mark p @ js '' '' @ d) = mark p @ js '' '' @ d"
  using assms by (intro trim_id) auto

text \<open>
  C8 as stated fails for the menu text: trimming is not limited to an absent description.
  A description that ends in a space, or in a NO-BREAK SPACE (U+00A0), loses it, so the
  menu text is not the mark, a space and the description.
\<close>

theorem convertToItems_menu_counterexample:
  "convertToItems [Obj (snippet_function\<lparr>description := Some (js ''Create a function '')\<rparr>)]
       params
     = Inr [\<lparr>word = js ''function'', abbr = js ''Function Declaration'',
             menu = js ''[LS] Create a function'',
             info = js ''Trigger: function'' @ [0x0A] @ js ''Name: Function Declaration''
                    @ [0x0A] @ js ''Description: Create a function '' @ [0x0A]
                    @ js ''Filetype: typescript'' @ [0x0A] @ js ''Flags: word trigger'',
             kind = js ''Snippet'', item_dup = False\<rparr>]
   \<and> js ''[LS] Create a function'' \<noteq> mark params @ js '' '' @ js ''Create a function ''
   \<and> convertToItems [Obj (snippet_function\<lparr>description := Some (js ''desc'' @ [0x00A0])\<rparr>)]
       params
     = Inr [\<lparr>word = js ''function'', abbr = js ''Function Declaration'',
             menu = js ''[LS] desc'',
             info = js ''Trigger: function'' @ [0x0A] @ js ''Name: Function Declaration''
                    @ [0x0A] @ js ''Description: desc'' @ [0x00A0, 0x0A]
                    @ js ''Filetype: typescript'' @ [0x0A] @ js ''Flags: word trigger'',
             kind = js ''Snippet'', item_dup = False\<rparr>]
   \<and> js ''[LS] desc'' \<noteq> mark params @ js '' '' @ js ''desc'' @ [0x00A0]"
  by (simp add: model_defs fixture_defs)

subsection \<open>Cache\<close>

lemma gather_try_cacheTimeout:
  "gather_try lc s now (args\<lparr>sourceParams := (sourceParams args)\<lparr>cacheTimeout := t\<rparr>\<rparr>)
     = gather_try lc s now args"
proof -
  have "convert_callback (p\<lparr>cacheTimeout := t\<rparr>) = convert_callback p" for p
    by (rule ext) (case_tac x; simp)
  then show ?thesis
    unfolding gather_try_def Let_def
    by (simp add: getSnippets_def convertToItems_def split: prod.splits sum.splits)
qed

lemma gather_cacheTimeout:
  "gather lc s now (args\<lparr>sourceParams := (sourceParams args)\<lparr>cacheTimeout := t\<rparr>\<rparr>)
     = gather lc s now args"
  unfolding gather_def by (simp only: gather_try_cacheTimeout)

text \<open>
  C1 does not hold of the code. The cache of a source is built with the fixed timeout of
  5000 ms and \<open>cacheTimeout\<close> is never read. With \<open>cacheTimeout = 1000\<close>, a second
  gather call 2000 ms after the first fetches nothing and serves the entry of the first
  call, although the bridge would by now answer two snippets. With
  \<open>cacheTimeout = 10000\<close>, a second call 6000 ms after the first fetches again.
\<close>

theorem cacheTimeout_option_is_ignored:
  "gathers toLowerCase_ascii ready_source
     [(0, createMockGatherArgs [] (params\<lparr>cacheTimeout := 1000\<rparr>)
            (Inr (Array [Obj (snippet_bare (js ''snippet1''))]))),
      (2000, createMockGatherArgs [] (params\<lparr>cacheTimeout := 1000\<rparr>)
            (Inr (Array [Obj (snippet_bare (js ''snippet1'')), Obj (snippet_bare (js ''snippet2''))])))]
   = [([js ''typescript''],
       Inr [\<lparr>word = js ''snippet1'', abbr = js ''snippet1'', menu = js ''[LS]'',
             info = js ''Trigger: snippet1'' @ [0x0A] @ js ''Filetype: typescript'',
             kind = js ''Snippet'', item_dup = False\<rparr>]),
      ([],
       Inr [\<lparr>word = js ''snippet1'', abbr = js ''snippet1'', menu = js ''[LS]'',
             info = js ''Trigger: snippet1'' @ [0x0A] @ js ''Filetype: typescript'',
             kind = js ''Snippet'', item_dup = False\<rparr>])]
   \<and> map fst (gathers toLowerCase_ascii ready_source
     [(0, createMockGatherArgs [] (params\<lparr>cacheTimeout := 10000\<rparr>)
            (Inr (Array [Obj (snippet_bare (js ''snippet1''))]))),
      (6000, createMockGatherArgs [] (params\<lparr>cacheTimeout := 10000\<rparr>)
            (Inr (Array [Obj (snippet_bare (js ''snippet1''))])))])
   = [[js ''typescript''], [js ''typescript'']]"
  by (simp add: ready_source_eq model_defs fixture_defs)

lemma getSnippets_cached_fetch:
  assumes "filetypes p = [] \<or> key \<in> set (filetypes p)" and "key \<notin> set (excludeFiletypes p)"
    and "enableCache p"
    and "\<forall>e. cache (source_cache s) key = Some e \<longrightarrow> timeout (source_cache s) \<le> now - timestamp e"
  shows "getSnippets s d now key p =
           (s\<lparr>source_cache := (source_cache s)\<lparr>cache := (cache (source_cache s))
                 (key \<mapsto> \<lparr>data = LuaSnipInterface_getSnippets d key, timestamp = now\<rparr>)\<rparr>\<rparr>,
            [key], Inr (LuaSnipInterface_getSnippets d key))"
  using assms
  by (auto simp: getSnippets_def SnippetCache_get_def SnippetCache_fetch_def split: option.splits)

lemma getSnippets_cached_hit:
  assumes "filetypes p = [] \<or> key \<in> set (filetypes p)" and "key \<notin> set (excludeFiletypes p)"
    and "enableCache p"
    and "cache (source_cache s) key = Some e" and "now - timestamp e < timeout (source_cache s)"
  shows "getSnippets s d now key p = (s, [], Inr (data e))"
  using assms
  by (auto simp: getSnippets_def SnippetCache_get_def SnippetCache_fetch_def split: option.splits)

lemma getSnippets_uncached:
  assumes "filetypes p = [] \<or> key \<in> set (filetypes p)" and "key \<notin> set (excludeFiletypes p)"
    and "\<not> enableCache p"
  shows "getSnippets s d now key p = (s, [key], Inr (LuaSnipInterface_getSnippets d key))"
  using assms by (auto simp: getSnippets_def)

lemma gather_of_no_snippets:
  assumes "isInitialized s" and "analyzeContext (denops args) = \<lparr>shouldComplete = True, ar_filetype = key\<rparr>"
    and "getSnippets s (denops args) now key (sourceParams args) = (s', f, Inr [])"
  shows "gather lc s now args = (s', f, Inr [])"
  using assms by (simp add: gather_def gather_no_snippets)

lemma gather_fetched_state:
  assumes f: "fst (snd (gather lc s now args)) = [key]"
  shows "isInitialized s
         \<and> analyzeContext (denops args) = \<lparr>shouldComplete = True, ar_filetype = key\<rparr>
         \<and> fst (gather lc s now args) =
             (if enableCache (sourceParams args)
              then s\<lparr>source_cache := (source_cache s)\<lparr>cache := (cache (source_cache s))
                     (key \<mapsto> \<lparr>data = LuaSnipInterface_getSnippets (denops args) key,
                              timestamp = now\<rparr>)\<rparr>\<rparr>
              else s)"
proof -
  from f have init: "isInitialized s" and ft: "fst (snd (gather_try lc s now args)) = [key]"
    by (auto simp: gather_fetched split: if_splits)
  from ft have sc: "shouldComplete (analyzeContext (denops args))"
    by (rule contrapos_pp) (simp add: gather_try_aborted)
  obtain s1 f1 r1 where g: "getSnippets s (denops args) now
      (ar_filetype (analyzeContext (denops args))) (sourceParams args) = (s1, f1, r1)"
    by (cases "getSnippets s (denops args) now
      (ar_filetype (analyzeContext (denops args))) (sourceParams args)") auto
  from ft gather_try_fetched [OF sc g] have f1: "f1 = [key]" and s1: "fst (gather_try lc s now args) = s1"
    by simp_all
  with getSnippets_fetched [OF g] have k: "ar_filetype (analyzeContext (denops args)) = key"
    by auto
  from g f1 k have "s1 = (if enableCache (sourceParams args)
              then s\<lparr>source_cache := (source_cache s)\<lparr>cache := (cache (source_cache s))
                     (key \<mapsto> \<lparr>data = LuaSnipInterface_getSnippets (denops args) key,
                              timestamp = now\<rparr>)\<rparr>\<rparr>
              else s)"
    by (auto simp: getSnippets_def SnippetCache_get_def SnippetCache_fetch_def
        split: if_splits option.splits)
  moreover have "fst (gather lc s now args) = fst (gather_try lc s now args)"
    using init by (cases "gather_try lc s now args") (simp add: gather_def split: sum.splits)
  moreover from sc k have "analyzeContext (denops args) = \<lparr>shouldComplete = True, ar_filetype = key\<rparr>"
    by (cases "analyzeContext (denops args)") simp
  ultimately show ?thesis using init s1 by simp
qed


lemma gather_fetched_from:
  assumes "isInitialized s"
    and "analyzeContext (denops args) = \<lparr>shouldComplete = True, ar_filetype = key\<rparr>"
    and "getSnippets s (denops args) now key (sourceParams args) = (s', f, r)"
  shows "fst (snd (gather lc s now args)) = f"
  using assms gather_try_fetched [of args s now s' f r lc]
  by (simp add: gather_fetched)

text \<open>
  C2, as the code has it. Take a gather call that fetches the snippets of its context key
  over the bridge, and let the fetch fail: the bridge call raises or answers something
  that is not an array. The call returns the empty sequence, whatever the configuration.
  With caching disabled the call leaves the source as it was, so no cache entry is
  written, and a later gather call for the same key with caching disabled fetches again.
  With caching enabled the empty snippet set is stored under the key with the time of
  the call. A later gather call for the same key, with caching enabled and with a
  configured \<open>cacheTimeout\<close> that is the timeout the cache runs with, fetches nothing
  and returns the empty sequence if it comes before \<open>cacheTimeout\<close> has elapsed,
  whatever the bridge would answer by then, and fetches again if it comes later.
\<close>

theorem failed_fetch_degrades_to_empty:
  assumes f1: "fst (snd (gather lc s t1 a1)) = [key]"
    and bad: "(\<exists>e. luaeval_snippets (denops a1) key = Inl e)
              \<or> luaeval_snippets (denops a1) key = Inr NotArray"
    and k2: "analyzeContext (denops a2) = \<lparr>shouldComplete = True, ar_filetype = key\<rparr>"
    and allow2: "filetypes (sourceParams a2) = [] \<or> key \<in> set (filetypes (sourceParams a2))"
    and deny2: "key \<notin> set (excludeFiletypes (sourceParams a2))"
  shows "snd (snd (gather lc s t1 a1)) = Inr []
    \<and> (\<not> enableCache (sourceParams a1) \<longrightarrow> fst (gather lc s t1 a1) = s)
    \<and> (\<not> enableCache (sourceParams a2) \<longrightarrow>
          fst (snd (gather lc (fst (gather lc s t1 a1)) t2 a2)) = [key])
    \<and> (enableCache (sourceParams a1) \<longrightarrow>
          cache (source_cache (fst (gather lc s t1 a1))) key
            = Some \<lparr>data = [], timestamp = t1\<rparr>)
    \<and> (enableCache (sourceParams a1) \<and> enableCache (sourceParams a2)
          \<and> timeout (source_cache s) = cacheTimeout (sourceParams a2)
          \<and> t2 - t1 < cacheTimeout (sourceParams a2) \<longrightarrow>
          gather lc (fst (gather lc s t1 a1)) t2 a2 = (fst (gather lc s t1 a1), [], Inr []))
    \<and> (enableCache (sourceParams a1) \<and> enableCache (sourceParams a2)
          \<and> timeout (source_cache s) = cacheTimeout (sourceParams a2)
          \<and> cacheTimeout (sourceParams a2) \<le> t2 - t1 \<longrightarrow>
          fst (snd (gather lc (fst (gather lc s t1 a1)) t2 a2)) = [key])"
proof -
  let ?s1 = "fst (gather lc s t1 a1)"
  let ?hit = "s\<lparr>source_cache := (source_cache s)\<lparr>cache := (cache (source_cache s))
                     (key \<mapsto> \<lparr>data = [], timestamp = t1\<rparr>)\<rparr>\<rparr>"
  from bad have e: "LuaSnipInterface_getSnippets (denops a1) key = []"
    by (rule LuaSnipInterface_getSnippets_failure)
  from gather_fetched_state [OF f1] e have init: "isInitialized s"
    and s1: "?s1 = (if enableCache (sourceParams a1) then ?hit else s)"
    by simp_all
  from init s1 have init1: "isInitialized ?s1"
    by simp
  from s1 have t1: "timeout (source_cache ?s1) = timeout (source_cache s)"
    by simp
  have r: "snd (snd (gather lc s t1 a1)) = Inr []"
    using f1 bad by (rule gather_fetch_fails)
  have off1: "\<not> enableCache (sourceParams a1) \<longrightarrow> ?s1 = s"
    using s1 by simp
  have on1: "enableCache (sourceParams a1) \<longrightarrow>
      cache (source_cache ?s1) key = Some \<lparr>data = [], timestamp = t1\<rparr>"
    using s1 by simp
  have off2: "\<not> enableCache (sourceParams a2) \<longrightarrow> fst (snd (gather lc ?s1 t2 a2)) = [key]"
  proof
    assume "\<not> enableCache (sourceParams a2)"
    with allow2 deny2 have "getSnippets ?s1 (denops a2) t2 key (sourceParams a2)
        = (?s1, [key], Inr (LuaSnipInterface_getSnippets (denops a2) key))"
      by (rule getSnippets_uncached)
    with init1 k2 show "fst (snd (gather lc ?s1 t2 a2)) = [key]"
      by (rule gather_fetched_from)
  qed
  have hit2: "enableCache (sourceParams a1) \<and> enableCache (sourceParams a2)
          \<and> timeout (source_cache s) = cacheTimeout (sourceParams a2)
          \<and> t2 - t1 < cacheTimeout (sourceParams a2) \<longrightarrow>
          gather lc ?s1 t2 a2 = (?s1, [], Inr [])"
  proof
    assume a: "enableCache (sourceParams a1) \<and> enableCache (sourceParams a2)
          \<and> timeout (source_cache s) = cacheTimeout (sourceParams a2)
          \<and> t2 - t1 < cacheTimeout (sourceParams a2)"
    with on1 have c: "cache (source_cache ?s1) key = Some \<lparr>data = [], timestamp = t1\<rparr>"
      by simp
    from a t1 have w: "t2 - timestamp \<lparr>data = [], timestamp = t1\<rparr> < timeout (source_cache ?s1)"
      by simp
    from a have c2: "enableCache (sourceParams a2)" by simp
    from getSnippets_cached_hit [OF allow2 deny2 c2 c w, of "denops a2"]
    have "getSnippets ?s1 (denops a2) t2 key (sourceParams a2) = (?s1, [], Inr [])"
      by simp
    with init1 k2 show "gather lc ?s1 t2 a2 = (?s1, [], Inr [])"
      by (rule gather_of_no_snippets)
  qed
  have miss2: "enableCache (sourceParams a1) \<and> enableCache (sourceParams a2)
          \<and> timeout (source_cache s) = cacheTimeout (sourceParams a2)
          \<and> cacheTimeout (sourceParams a2) \<le> t2 - t1 \<longrightarrow>
          fst (snd (gather lc ?s1 t2 a2)) = [key]"
  proof
    assume a: "enableCache (sourceParams a1) \<and> enableCache (sourceParams a2)
          \<and> timeout (source_cache s) = cacheTimeout (sourceParams a2)
          \<and> cacheTimeout (sourceParams a2) \<le> t2 - t1"
    with on1 have c: "cache (source_cache ?s1) key = Some \<lparr>data = [], timestamp = t1\<rparr>"
      by simp
    with a t1 have st: "\<forall>e. cache (source_cache ?s1) key = Some e
        \<longrightarrow> timeout (source_cache ?s1) \<le> t2 - timestamp e"
      by simp
    from a have c2: "enableCache (sourceParams a2)" by simp
    from getSnippets_cached_fetch [OF allow2 deny2 c2 st, of "denops a2"]
    obtain s2 r2 where "getSnippets ?s1 (denops a2) t2 key (sourceParams a2) = (s2, [key], r2)"
      by blast
    with init1 k2 show "fst (snd (gather lc ?s1 t2 a2)) = [key]"
      by (rule gather_fetched_from)
  qed
  from r off1 off2 on1 hit2 miss2 show ?thesis by blast
qed


theorem failed_fetch_degrades_to_empty_witness:
  "fst (snd (gather toLowerCase_ascii ready_source 0
       (createMockGatherArgs (js ''fun'') params (Inl (Thrown ''Lua execution error'')))))
     = [js ''typescript'']
   \<and> snd (snd (gather toLowerCase_ascii ready_source 0
       (createMockGatherArgs (js ''fun'') params (Inl (Thrown ''Lua execution error'')))))
     = Inr []
   \<and> cache (source_cache (fst (gather toLowerCase_ascii ready_source 0
       (createMockGatherArgs (js ''fun'') params (Inl (Thrown ''Lua execution error''))))))
         (js ''typescript'')
     = Some \<lparr>data = [], timestamp = 0\<rparr>
   \<and> fst (snd (gather toLowerCase_ascii
         (fst (gather toLowerCase_ascii ready_source 0
           (createMockGatherArgs (js ''fun'') params (Inl (Thrown ''Lua execution error'')))))
         4999
         (createMockGatherArgs (js ''fun'') params (Inr (Array [Obj snippet_function])))))
     = []
   \<and> fst (snd (gather toLowerCase_ascii
         (fst (gather toLowerCase_ascii ready_source 0
           (createMockGatherArgs (js ''fun'') params (Inl (Thrown ''Lua execution error'')))))
         5000
         (createMockGatherArgs (js ''fun'') params (Inr (Array [Obj snippet_function])))))
     = [js ''typescript'']
   \<and> fst (gather toLowerCase_ascii ready_source 0
         (createMockGatherArgs (js ''fun'') (params\<lparr>enableCache := False\<rparr>)
            (Inr NotArray)))
     = ready_source
   \<and> fst (snd (gather toLowerCase_ascii
         (fst (gather toLowerCase_ascii ready_source 0
           (createMockGatherArgs (js ''fun'') (params\<lparr>enableCache := False\<rparr>)
              (Inr NotArray))))
         1
         (createMockGatherArgs (js ''fun'') (params\<lparr>enableCache := False\<rparr>)
            (Inr (Array [Obj snippet_function])))))
     = [js ''typescript'']"
proof -
  let ?fail = "createMockGatherArgs (js ''fun'') params (Inl (Thrown ''Lua execution error''))"
  let ?ok = "createMockGatherArgs (js ''fun'') params (Inr (Array [Obj snippet_function]))"
  let ?fail_off = "createMockGatherArgs (js ''fun'') (params\<lparr>enableCache := False\<rparr>)
            (Inr NotArray)"
  let ?ok_off = "createMockGatherArgs (js ''fun'') (params\<lparr>enableCache := False\<rparr>)
            (Inr (Array [Obj snippet_function]))"
  have f: "fst (snd (gather toLowerCase_ascii ready_source 0 ?fail)) = [js ''typescript'']"
    and f_off: "fst (snd (gather toLowerCase_ascii ready_source 0 ?fail_off))
                  = [js ''typescript'']"
    by (simp_all add: ready_source_eq model_defs fixture_defs)
  have bad: "(\<exists>e. luaeval_snippets (denops ?fail) (js ''typescript'') = Inl e)
              \<or> luaeval_snippets (denops ?fail) (js ''typescript'') = Inr NotArray"
    and bad_off: "(\<exists>e. luaeval_snippets (denops ?fail_off) (js ''typescript'') = Inl e)
              \<or> luaeval_snippets (denops ?fail_off) (js ''typescript'') = Inr NotArray"
    by (simp_all add: createMockGatherArgs_def mockDenops_def)
  have k: "analyzeContext (denops ?ok)
             = \<lparr>shouldComplete = True, ar_filetype = js ''typescript''\<rparr>"
    and k_off: "analyzeContext (denops ?ok_off)
             = \<lparr>shouldComplete = True, ar_filetype = js ''typescript''\<rparr>"
    by (simp_all add: analyzeContext_def fixture_defs)
  have allow: "filetypes (sourceParams ?ok) = []
                 \<or> js ''typescript'' \<in> set (filetypes (sourceParams ?ok))"
    and deny: "js ''typescript'' \<notin> set (excludeFiletypes (sourceParams ?ok))"
    and allow_off: "filetypes (sourceParams ?ok_off) = []
                 \<or> js ''typescript'' \<in> set (filetypes (sourceParams ?ok_off))"
    and deny_off: "js ''typescript'' \<notin> set (excludeFiletypes (sourceParams ?ok_off))"
    by (simp_all add: createMockGatherArgs_def params_def)
  have conf: "enableCache (sourceParams ?fail)" "enableCache (sourceParams ?ok)"
    "timeout (source_cache ready_source) = 5000" "cacheTimeout (sourceParams ?ok) = 5000"
    "\<not> enableCache (sourceParams ?fail_off)" "\<not> enableCache (sourceParams ?ok_off)"
    by (simp_all add: createMockGatherArgs_def params_def ready_source_eq)
  from failed_fetch_degrades_to_empty [OF f bad k allow deny, of 4999] conf
  have a: "snd (snd (gather toLowerCase_ascii ready_source 0 ?fail)) = Inr []"
    and b: "cache (source_cache (fst (gather toLowerCase_ascii ready_source 0 ?fail)))
              (js ''typescript'') = Some \<lparr>data = [], timestamp = 0\<rparr>"
    and c: "gather toLowerCase_ascii (fst (gather toLowerCase_ascii ready_source 0 ?fail))
              4999 ?ok
            = (fst (gather toLowerCase_ascii ready_source 0 ?fail), [], Inr [])"
    by simp_all
  from failed_fetch_degrades_to_empty [OF f bad k allow deny, of 5000] conf
  have d: "fst (snd (gather toLowerCase_ascii
              (fst (gather toLowerCase_ascii ready_source 0 ?fail)) 5000 ?ok))
            = [js ''typescript'']"
    by simp
  from failed_fetch_degrades_to_empty [OF f_off bad_off k_off allow_off deny_off, of 1] conf
  have e: "fst (gather toLowerCase_ascii ready_source 0 ?fail_off) = ready_source"
    and g: "fst (snd (gather toLowerCase_ascii
              (fst (gather toLowerCase_ascii ready_source 0 ?fail_off)) 1 ?ok_off))
            = [js ''typescript'']"
    by blast+
  from f a b c d e g show ?thesis by simp
qed

text \<open>
  C2 as stated fails: after a fetch that raised, the cache holds an entry for the key, and
  the next call, one second later, does not fetch although the bridge has recovered.
\<close>

theorem failed_fetch_no_entry_counterexample:
  "cache (source_cache (fst (gather toLowerCase_ascii ready_source 0
        (createMockGatherArgs [] params (Inl (Thrown ''Lua execution error''))))))
       (js ''typescript'')
     = Some \<lparr>data = [], timestamp = 0\<rparr>
   \<and> gathers toLowerCase_ascii ready_source
     [(0, createMockGatherArgs [] params (Inl (Thrown ''Lua execution error''))),
      (1000, createMockGatherArgs [] params (Inr (Array [Obj (snippet_bare (js ''snippet1''))])))]
   = [([js ''typescript''], Inr []), ([], Inr [])]"
  by (simp add: ready_source_eq model_defs fixture_defs)

end
